theory Spec2Isabelle
  imports Main "HOL-Library.AList"
begin

section \<open>Values, errors and model classes\<close>

text \<open>
  Python values that travel through the endpoints: decoded JSON documents, query-string
  values and column values of a row. Python's \<open>None\<close> is \<open>JNull\<close>, a \<open>str\<close> is \<open>JStr\<close>,
  an \<open>int\<close> is \<open>JInt\<close>, a \<open>dict\<close> is \<open>JObj\<close> with its entries in insertion order.
\<close>

datatype json =
    JNull
  | JBool bool
  | JInt int
  | JStr string
  | JList "json list"
  | JObj "(string \<times> json) list"

text \<open>
  Every exception the source raises or lets through is a value. \<open>Abort n\<close> is Flask's
  \<open>abort(n)\<close>; \<open>ValidationError\<close> carries the field-keyed error dictionary.
\<close>

datatype error =
    Abort nat
  | ValidationError "(string \<times> json) list"
  | AttributeError string
  | KeyError string
  | TypeError
  | MultipleResultsFound
  | DocumentError
  | NoResultFound

text \<open>\<open>column.type.python_type\<close>: only \<open>int\<close> and \<open>str\<close> are told apart by the source.\<close>

datatype python_type = PyInt | PyStr | PyOther

record column =
  col_name :: string
  col_type :: python_type
  col_primary_key :: bool

text \<open>
  A SQLAlchemy model class, as far as the endpoints look at it: \<open>__tablename__\<close> and the
  mapped columns in declaration order. The attributes of the class that the source reads
  with \<open>getattr\<close> and \<open>hasattr\<close> are its columns.
\<close>

record model_cls =
  tablename :: string
  columns :: "column list"

definition column_names :: "model_cls \<Rightarrow> string list" where
  "column_names cls = map col_name (columns cls)"

definition hasattr :: "model_cls \<Rightarrow> string \<Rightarrow> bool" where
  "hasattr cls n = (n \<in> set (column_names cls))"

text \<open>
  The name handed to \<open>getattr\<close>. Python has no static types: the \<open>ident\<close> argument of
  \<open>add_resource\<close> may be a string or a sequence of strings, and \<open>getattr\<close> raises
  \<open>TypeError\<close> for a name that is not a string, \<open>AttributeError\<close> for a missing attribute.
\<close>

datatype attr_name = Str string | Seq "string list"

definition getattr :: "model_cls \<Rightarrow> attr_name \<Rightarrow> error + column" where
  "getattr cls a =
     (case a of
        Seq ns \<Rightarrow> Inl TypeError
      | Str n \<Rightarrow>
          (case find (\<lambda>c. col_name c = n) (columns cls) of
             None \<Rightarrow> Inl (AttributeError n)
           | Some c \<Rightarrow> Inr c))"

section \<open>Strings: \<open>str.split\<close> and \<open>str.join\<close>\<close>

text \<open>\<open>s.split(sep)\<close> for a one-character separator: \<open>"".split("_") == [""]\<close>.\<close>

fun split :: "char \<Rightarrow> string \<Rightarrow> string list" where
  "split sep [] = [[]]"
| "split sep (c # cs) =
     (if c = sep then [] # split sep cs
      else (case split sep cs of
              [] \<Rightarrow> [[c]]
            | w # ws \<Rightarrow> (c # w) # ws))"

text \<open>\<open>sep.join(words)\<close>.\<close>

fun join :: "string \<Rightarrow> string list \<Rightarrow> string" where
  "join sep [] = []"
| "join sep [w] = w"
| "join sep (w # v # ws) = w @ sep @ join sep (v # ws)"

section \<open>Route rules\<close>

text \<open>\<open>type_mapping = {int: "int", str: "string"}\<close> with \<open>.get(python_type, "string")\<close>.\<close>

definition type_mapping :: "python_type \<Rightarrow> string" where
  "type_mapping t = (case t of PyInt \<Rightarrow> ''int'' | PyStr \<Rightarrow> ''string'' | PyOther \<Rightarrow> ''string'')"

text \<open>One path variable with its trailing comma: \<open>f"<{_type}:{column.name}>,"\<close>.\<close>

definition rule_variable :: "column \<Rightarrow> string" where
  "rule_variable c = ''<'' @ type_mapping (col_type c) @ '':'' @ col_name c @ ''>,''"

text \<open>The list comprehension \<open>[getattr(modelcls, n) for n in ident_prop]\<close>: the first
  failing lookup raises.\<close>

fun getattr_all :: "model_cls \<Rightarrow> attr_name list \<Rightarrow> error + column list" where
  "getattr_all cls [] = Inr []"
| "getattr_all cls (a # as) =
     (case getattr cls a of
        Inl e \<Rightarrow> Inl e
      | Inr c \<Rightarrow> (case getattr_all cls as of Inl e \<Rightarrow> Inl e | Inr cs \<Rightarrow> Inr (c # cs)))"

text \<open>
  \<open>_generate_route_rules(base_url, modelcls, ident_prop, is_org)\<close>. The loop appends one
  variable and a comma per identifier column; \<open>item_rule[:-1]\<close> then drops the last
  character, whatever it is.
\<close>

definition generate_route_rules ::
  "string \<Rightarrow> model_cls \<Rightarrow> attr_name list \<Rightarrow> bool \<Rightarrow> error + (string \<times> string)" where
  "generate_route_rules base_url modelcls ident_prop is_org =
     (let list_rule = (if is_org then ''/orgs/<aud:orgname>/'' @ base_url else ''/'' @ base_url);
          item_rule = list_rule @ ''/''
      in case getattr_all modelcls ident_prop of
           Inl e \<Rightarrow> Inl e
         | Inr cols \<Rightarrow>
             Inr (list_rule, butlast (foldl (\<lambda>r c. r @ rule_variable c) item_rule cols)))"

text \<open>
  The head of \<open>add_resource\<close> (the lines that derive the two rules). \<open>base_url\<close> and \<open>ident\<close>
  are optional arguments; \<open>x or y\<close> takes \<open>y\<close> when \<open>x\<close> is \<open>None\<close> or empty.
  \<open>inspect(modelcls).primary_key\<close> is the tuple of the primary-key columns in declaration
  order, and \<open>ident = (ident,) if ident else primary_key\<close> wraps the argument, whatever it
  is, into a one-element tuple.
\<close>

definition primary_key :: "model_cls \<Rightarrow> string list" where
  "primary_key cls = map col_name (filter col_primary_key (columns cls))"

definition truthy_name :: "attr_name \<Rightarrow> bool" where
  "truthy_name a = (case a of Str n \<Rightarrow> n \<noteq> [] | Seq ns \<Rightarrow> ns \<noteq> [])"

definition add_resource_rules ::
  "model_cls \<Rightarrow> string option \<Rightarrow> attr_name option \<Rightarrow> error + (string \<times> string)" where
  "add_resource_rules modelcls base_url ident =
     (let is_org = hasattr modelcls ''org_id'';
          table_name = tablename modelcls;
          base = (case base_url of
                    None \<Rightarrow> join ''-'' (split CHR ''_'' table_name)
                  | Some b \<Rightarrow> if b \<noteq> [] then b else join ''-'' (split CHR ''_'' table_name));
          ident_prop = (case ident of
                          None \<Rightarrow> map Str (primary_key modelcls)
                        | Some a \<Rightarrow> if truthy_name a then [a] else map Str (primary_key modelcls))
      in generate_route_rules base modelcls ident_prop is_org)"

text \<open>
  Two notions used to state what the rules are: the table name with every underscore
  replaced by a dash, and a path variable without the trailing comma.
\<close>

definition dashed :: "string \<Rightarrow> string" where
  "dashed s = map (\<lambda>c. if c = CHR ''_'' then CHR ''-'' else c) s"

definition path_variable :: "column \<Rightarrow> string" where
  "path_variable c = ''<'' @ type_mapping (col_type c) @ '':'' @ col_name c @ ''>''"

text \<open>The model of the docstring of \<open>add_resource\<close>: a composite primary key.\<close>

definition OrderLine :: model_cls where
  "OrderLine =
     \<lparr>tablename = ''order_line'',
      columns = [\<lparr>col_name = ''order_id'', col_type = PyInt, col_primary_key = True\<rparr>,
                 \<lparr>col_name = ''product_id'', col_type = PyInt, col_primary_key = True\<rparr>]\<rparr>"

section \<open>Dictionaries, rows and queries\<close>

text \<open>A Python \<open>dict\<close> with string keys, its entries in insertion order.\<close>

type_synonym dict = "(string \<times> json) list"

text \<open>\<open>k in d\<close>, \<open>d.get(k, default)\<close> and \<open>d.update(e)\<close>: an entry of \<open>e\<close> replaces the
  entry of \<open>d\<close> with the same key.\<close>

definition has_key :: "(string \<times> 'a) list \<Rightarrow> string \<Rightarrow> bool" where
  "has_key d k = (map_of d k \<noteq> None)"

definition dict_get :: "dict \<Rightarrow> string \<Rightarrow> json \<Rightarrow> json" where
  "dict_get d k dflt = (case map_of d k of None \<Rightarrow> dflt | Some v \<Rightarrow> v)"

definition dict_update :: "dict \<Rightarrow> dict \<Rightarrow> dict" where
  "dict_update d e = fold (\<lambda>(k, v). AList.update k v) e d"

text \<open>Python's truth value of an object, as \<open>if flag:\<close> tests it.\<close>

fun truthy :: "json \<Rightarrow> bool" where
  "truthy JNull = False"
| "truthy (JBool b) = b"
| "truthy (JInt i) = (i \<noteq> 0)"
| "truthy (JStr s) = (s \<noteq> [])"
| "truthy (JList xs) = (xs \<noteq> [])"
| "truthy (JObj kvs) = (kvs \<noteq> [])"

text \<open>
  A model instance is its column values by column name. A query is the list of the rows
  it selects, in the order the database returns them; \<open>Model.query\<close> is the whole table.
  \<open>query.filter_by(**filters)\<close> keeps the rows that equal every entry of \<open>filters\<close>.
\<close>

type_synonym row = dict

definition filter_by :: "row list \<Rightarrow> dict \<Rightarrow> row list" where
  "filter_by query filters =
     filter (\<lambda>r. list_all (\<lambda>(k, v). map_of r k = Some v) filters) query"

definition filter_modifier :: "row list \<Rightarrow> dict \<Rightarrow> row list" where
  "filter_modifier query filters = filter_by query filters"

section \<open>Field selection\<close>

text \<open>The loop of \<open>_parse_select_modifier\<close> over \<open>select.items()\<close>.\<close>

fun select_loop :: "dict \<Rightarrow> string list \<Rightarrow> string list \<Rightarrow> string list \<times> string list" where
  "select_loop [] include exclude = (include, exclude)"
| "select_loop ((column_name, flag) # rest) include exclude =
     (if truthy flag then select_loop rest (include @ [column_name]) exclude
      else select_loop rest include (exclude @ [column_name]))"

definition parse_select_modifier :: "dict \<Rightarrow> (string \<times> string list) list" where
  "parse_select_modifier select =
     (case select_loop select [] [] of
        (include, exclude) \<Rightarrow>
          (if include \<noteq> [] then [(''include'', include)] else []) @
          (if exclude \<noteq> [] then [(''exclude'', exclude)] else []))"

text \<open>
  Modelled from the spec: \<open>export_data\<close> (\<open>saraki.utility.export_from_sqla_object\<close>) is
  not among the sources. The spec, section 4.3 step 6: if \<open>include\<close> is non-empty, only
  those fields appear; \<open>exclude\<close> removes fields from whatever set is otherwise returned.
\<close>

definition export_row :: "(string \<times> string list) list \<Rightarrow> row \<Rightarrow> dict" where
  "export_row params r =
     (let include = (case map_of params ''include'' of None \<Rightarrow> [] | Some ns \<Rightarrow> ns);
          exclude = (case map_of params ''exclude'' of None \<Rightarrow> [] | Some ns \<Rightarrow> ns)
      in filter (\<lambda>(k, v). (include = [] \<or> k \<in> set include) \<and> k \<notin> set exclude) r)"

definition export_data :: "row list \<Rightarrow> (string \<times> string list) list \<Rightarrow> json" where
  "export_data rows params = JList (map (\<lambda>r. JObj (export_row params r)) rows)"

section \<open>Pagination\<close>

text \<open>
  \<open>query.paginate(page, per_page)\<close> of Flask-SQLAlchemy 2 with its default
  \<open>error_out=True\<close>: it aborts with 404 for a page below 1, a negative page size, and an
  empty page other than the first; otherwise the items are
  \<open>query.limit(per_page).offset((page - 1) * per_page).all()\<close> and \<open>total\<close> counts the rows of
  the query.
\<close>

record pagination =
  items :: "row list"
  total :: nat

definition paginate :: "row list \<Rightarrow> int \<Rightarrow> int \<Rightarrow> error + pagination" where
  "paginate query page per_page =
     (if page < 1 then Inl (Abort 404)
      else if per_page < 0 then Inl (Abort 404)
      else (let its = take (nat per_page) (drop (nat ((page - 1) * per_page)) query)
            in if its = [] \<and> page \<noteq> 1 then Inl (Abort 404)
               else Inr \<lparr>items = its,
                         total = (if page = 1 \<and> int (length its) < per_page then length its
                                  else length query)\<rparr>))"

section \<open>Text: \<open>str()\<close>, casts and \<open>ILIKE\<close>\<close>

text \<open>Decimal digits of a natural number and of an integer, as \<open>str(n)\<close> and
  \<open>CAST(n AS TEXT)\<close> print them.\<close>

function dec_nat :: "nat \<Rightarrow> string" where
  "dec_nat n =
     (if n < 10 then [''0123456789'' ! n]
      else dec_nat (n div 10) @ [''0123456789'' ! (n mod 10)])"
  by pat_completeness auto
termination
  by (relation "measure id") auto

definition dec_int :: "int \<Rightarrow> string" where
  "dec_int i = (if i < 0 then ''-'' @ dec_nat (nat (- i)) else dec_nat (nat i))"

text \<open>
  What the f-string \<open>f"%{term}%"\<close> puts for \<open>term\<close>: \<open>str(term)\<close>. For a list or a dict it
  is the \<open>repr\<close>; the \<open>repr\<close> of a string inside them is given here for strings that need
  no escape (no quote, backslash or control character).
\<close>

fun py_repr :: "json \<Rightarrow> string" where
  "py_repr JNull = ''None''"
| "py_repr (JBool b) = (if b then ''True'' else ''False'')"
| "py_repr (JInt i) = dec_int i"
| "py_repr (JStr s) = [CHR 0x27] @ s @ [CHR 0x27]"
| "py_repr (JList xs) = ''['' @ join '', '' (map py_repr xs) @ '']''"
| "py_repr (JObj kvs) =
     ''{'' @ join '', '' (map (\<lambda>(k, v). [CHR 0x27] @ k @ [CHR 0x27] @ '': '' @ py_repr v) kvs) @ ''}''"

definition py_str :: "json \<Rightarrow> string" where
  "py_str v = (case v of JStr s \<Rightarrow> s | _ \<Rightarrow> py_repr v)"

text \<open>ASCII lower case, which is how \<open>ILIKE\<close> compares.\<close>

definition lower :: "char \<Rightarrow> char" where
  "lower c =
     (case map_of (zip ''ABCDEFGHIJKLMNOPQRSTUVWXYZ'' ''abcdefghijklmnopqrstuvwxyz'') c of
        None \<Rightarrow> c
      | Some l \<Rightarrow> l)"

text \<open>
  SQL \<open>LIKE\<close>: \<open>%\<close> in the pattern stands for any run of characters, \<open>_\<close> for any one
  character, every other character for itself (no escape character is set by the source).
\<close>

fun like :: "string \<Rightarrow> string \<Rightarrow> bool" where
  "like [] [] = True"
| "like [] (c # cs) = False"
| "like (p # ps) [] = (p = CHR ''%'' \<and> like ps [])"
| "like (p # ps) (c # cs) =
     (if p = CHR ''%'' then like ps (c # cs) \<or> like (p # ps) cs
      else (p = CHR ''_'' \<or> p = c) \<and> like ps cs)"

definition ilike :: "string \<Rightarrow> string \<Rightarrow> bool" where
  "ilike text pattern = like (map lower pattern) (map lower text)"

text \<open>
  The text an \<open>ILIKE\<close> predicate reads from a column value. A string is itself; another
  value has a text only behind \<open>CAST(column AS TEXT)\<close>; SQL \<open>NULL\<close> has none and matches
  nothing.
\<close>

definition text_value :: "bool \<Rightarrow> json \<Rightarrow> string option" where
  "text_value cast v =
     (case v of
        JStr s \<Rightarrow> Some s
      | JInt i \<Rightarrow> if cast then Some (dec_int i) else None
      | JBool b \<Rightarrow> if cast then Some (if b then ''true'' else ''false'') else None
      | _ \<Rightarrow> None)"

section \<open>Search\<close>

text \<open>
  One predicate of \<open>_search_modifier\<close>: \<open>column.ilike(f"%{term}%")\<close>, the column cast to
  \<open>Text\<close> first when its \<open>python_type\<close> is not \<open>str\<close>.
\<close>

definition ilike_filter :: "column \<Rightarrow> string \<Rightarrow> row \<Rightarrow> bool" where
  "ilike_filter column term r =
     (case map_of r (col_name column) of
        None \<Rightarrow> False
      | Some v \<Rightarrow>
          (case text_value (col_type column \<noteq> PyStr) v of
             None \<Rightarrow> False
           | Some s \<Rightarrow> ilike s (''%'' @ term @ ''%'')))"

text \<open>The loop over \<open>search["f"]\<close>: the first name that is not an attribute raises.\<close>

fun search_filters :: "model_cls \<Rightarrow> string \<Rightarrow> json list \<Rightarrow> error + (row \<Rightarrow> bool) list" where
  "search_filters cls term [] = Inr []"
| "search_filters cls term (x # xs) =
     (case x of
        JStr column_name \<Rightarrow>
          (case getattr cls (Str column_name) of
             Inl e \<Rightarrow> Inl e
           | Inr column \<Rightarrow>
               (case search_filters cls term xs of
                  Inl e \<Rightarrow> Inl e
                | Inr filters \<Rightarrow> Inr (ilike_filter column term # filters)))
      | _ \<Rightarrow> Inl TypeError)"

text \<open>
  \<open>_search_modifier(cls, query, search)\<close>. \<open>query.filter(or_(*filters))\<close> keeps the rows that
  satisfy one of the predicates; SQLAlchemy renders an \<open>or_()\<close> of no predicate as no
  condition at all, so an empty field list filters nothing.
\<close>

definition search_modifier :: "model_cls \<Rightarrow> row list \<Rightarrow> json \<Rightarrow> error + row list" where
  "search_modifier cls query search =
     (case search of
        JObj d \<Rightarrow>
          (case map_of d ''t'' of
             None \<Rightarrow> Inl (KeyError ''t'')
           | Some term \<Rightarrow>
               (case map_of d ''f'' of
                  None \<Rightarrow> Inl (KeyError ''f'')
                | Some (JList names) \<Rightarrow>
                    (case search_filters cls (py_str term) names of
                       Inl e \<Rightarrow> Inl e
                     | Inr filters \<Rightarrow>
                         Inr (case filters of
                                [] \<Rightarrow> query
                              | p # ps \<Rightarrow> filter (\<lambda>r. list_ex (\<lambda>p. p r) filters) query))
                | Some _ \<Rightarrow> Inl TypeError))
      | _ \<Rightarrow> Inl TypeError)"

section \<open>Sort\<close>

text \<open>
  The loop of \<open>_sort_modifier\<close> over \<open>sort.split(",")\<close>: a leading \<open>-\<close> asks for descending
  order, and \<open>getattr\<close> raises \<open>AttributeError\<close> for a name the class does not have. The
  flag of a key is \<open>True\<close> for \<open>desc()\<close>.
\<close>

fun sort_keys :: "model_cls \<Rightarrow> string list \<Rightarrow> error + (column \<times> bool) list" where
  "sort_keys cls [] = Inr []"
| "sort_keys cls (column_name # rest) =
     (case (if take 1 column_name = ''-'' then getattr cls (Str (drop 1 column_name))
            else getattr cls (Str column_name)) of
        Inl e \<Rightarrow> Inl e
      | Inr column \<Rightarrow>
          (case sort_keys cls rest of
             Inl e \<Rightarrow> Inl e
           | Inr sorting \<Rightarrow> Inr ((column, take 1 column_name = ''-'') # sorting)))"

text \<open>
  The order of column values that \<open>ORDER BY\<close> uses: integers by value, strings by their
  characters, \<open>False\<close> before \<open>True\<close>, and \<open>NULL\<close> before every value (where \<open>NULL\<close>s go is
  the database's choice).
\<close>

fun str_less :: "string \<Rightarrow> string \<Rightarrow> bool" where
  "str_less [] [] = False"
| "str_less [] (d # ds) = True"
| "str_less (c # cs) [] = False"
| "str_less (c # cs) (d # ds) =
     ((of_char c :: nat) < of_char d \<or> (c = d \<and> str_less cs ds))"

fun value_less :: "json \<Rightarrow> json \<Rightarrow> bool" where
  "value_less JNull JNull = False"
| "value_less JNull v = True"
| "value_less (JBool a) (JBool b) = (\<not> a \<and> b)"
| "value_less (JInt i) (JInt j) = (i < j)"
| "value_less (JStr s) (JStr t) = str_less s t"
| "value_less u v = False"

text \<open>\<open>row_before keys a b\<close>: row \<open>a\<close> sorts strictly before row \<open>b\<close>, the first key being
  the primary one.\<close>

fun row_before :: "(column \<times> bool) list \<Rightarrow> row \<Rightarrow> row \<Rightarrow> bool" where
  "row_before [] a b = False"
| "row_before ((column, desc) # keys) a b =
     (let x = dict_get a (col_name column) JNull;
          y = dict_get b (col_name column) JNull
      in if value_less x y then \<not> desc
         else if value_less y x then desc
         else row_before keys a b)"

fun insert_row :: "(column \<times> bool) list \<Rightarrow> row \<Rightarrow> row list \<Rightarrow> row list" where
  "insert_row keys r [] = [r]"
| "insert_row keys r (x # xs) =
     (if row_before keys x r then x # insert_row keys r xs else r # x # xs)"

text \<open>\<open>query.order_by(*sorting)\<close>: a stable sort; with no key the query is unchanged.\<close>

definition order_by :: "row list \<Rightarrow> (column \<times> bool) list \<Rightarrow> row list" where
  "order_by query sorting = foldr (insert_row sorting) query []"

definition sort_modifier :: "model_cls \<Rightarrow> row list \<Rightarrow> json \<Rightarrow> error + row list" where
  "sort_modifier cls query sort_value =
     (case sort_value of
        JStr s \<Rightarrow>
          (case sort_keys cls (split CHR '','' s) of
             Inl e \<Rightarrow> Inl e
           | Inr sorting \<Rightarrow> Inr (order_by query sorting))
      | _ \<Rightarrow> Inl (AttributeError ''split''))"

section \<open>Library functions the endpoints call\<close>

text \<open>
  Two functions of the Python side are arguments of the model: \<open>flask.json.loads\<close>
  (\<open>None\<close> when it raises \<open>JSONDecodeError\<close>) and the built-in \<open>int\<close> (\<open>None\<close> when it
  raises). Every general theorem below holds for any such pair of functions.
\<close>

record library =
  loads :: "string \<Rightarrow> json option"
  to_int :: "json \<Rightarrow> int option"

section \<open>Validation rules\<close>

text \<open>
  The Cerberus rules that \<open>query_string_schema\<close> is written with. \<open>Rule p\<close> is a rule of
  any other kind, given by the values it accepts; the schema that \<open>generate_schema\<close>
  derives from a model class, which is not among the sources, is an argument made of
  these rules.
\<close>

datatype ctype = TDict | TList | TInteger | TString | TBoolean

datatype rule =
    Type ctype
  | Allowed "string list"
  | Valueschema "rule list"
  | Schema "(string \<times> rule list) list"
  | Required
  | Nullable
  | Coerce_int
  | Rule "json \<Rightarrow> bool"

text \<open>\<open>isinstance\<close> checks of the \<open>type\<close> rule. A Python \<open>bool\<close> is an \<open>int\<close>, and Cerberus
  excludes it only from its \<open>number\<close> type.\<close>

fun is_type :: "ctype \<Rightarrow> json \<Rightarrow> bool" where
  "is_type TDict (JObj kvs) = True"
| "is_type TList (JList xs) = True"
| "is_type TInteger (JInt i) = True"
| "is_type TInteger (JBool b) = True"
| "is_type TString (JStr s) = True"
| "is_type TBoolean (JBool b) = True"
| "is_type t v = False"

text \<open>The \<open>allowed\<close> rule: every element of a list, every key of a dict, or the value
  itself when it is a string, is one of the allowed strings.\<close>

fun is_allowed_item :: "string list \<Rightarrow> json \<Rightarrow> bool" where
  "is_allowed_item allowed (JStr s) = (s \<in> set allowed)"
| "is_allowed_item allowed v = False"

fun allowed_ok :: "string list \<Rightarrow> json \<Rightarrow> bool" where
  "allowed_ok allowed (JObj kvs) = list_all (\<lambda>(k, v). k \<in> set allowed) kvs"
| "allowed_ok allowed (JList xs) = list_all (is_allowed_item allowed) xs"
| "allowed_ok allowed v = is_allowed_item allowed v"

fun is_required :: "rule \<Rightarrow> bool" where
  "is_required Required = True"
| "is_required r = False"

fun is_nullable :: "rule \<Rightarrow> bool" where
  "is_nullable Nullable = True"
| "is_nullable r = False"

fun is_coerce :: "rule \<Rightarrow> bool" where
  "is_coerce Coerce_int = True"
| "is_coerce r = False"

fun is_type_rule :: "rule \<Rightarrow> bool" where
  "is_type_rule (Type t) = True"
| "is_type_rule r = False"

text \<open>
  Whether a value passes a rule, a rule set, and a document the fields of a schema. The
  flag is \<open>update\<close>: Cerberus hands it down to the validators of nested documents and
  checks \<open>required\<close> only when it is off. \<open>None\<close> passes a rule set only if the set says
  \<open>nullable\<close>. \<open>required\<close> and \<open>coerce\<close> are not checks of the value.
\<close>

fun rule_ok :: "bool \<Rightarrow> rule \<Rightarrow> json \<Rightarrow> bool"
  and rules_ok :: "bool \<Rightarrow> rule list \<Rightarrow> json \<Rightarrow> bool"
  and fields_ok :: "bool \<Rightarrow> (string \<times> rule list) list \<Rightarrow> dict \<Rightarrow> bool" where
  "rule_ok u (Type t) v = is_type t v"
| "rule_ok u (Allowed allowed) v = allowed_ok allowed v"
| "rule_ok u (Valueschema rs) v =
     (case v of
        JObj kvs \<Rightarrow>
          list_all (\<lambda>(k, x). if x = JNull then list_ex is_nullable rs else rules_ok u rs x) kvs
      | _ \<Rightarrow> True)"
| "rule_ok u (Schema sch) v =
     (case v of
        JObj kvs \<Rightarrow> list_all (\<lambda>(k, x). has_key sch k) kvs \<and> fields_ok u sch kvs
      | _ \<Rightarrow> True)"
| "rule_ok u Required v = True"
| "rule_ok u Nullable v = True"
| "rule_ok u Coerce_int v = True"
| "rule_ok u (Rule p) v = p v"
| "rules_ok u [] v = True"
| "rules_ok u (r # rs) v = (rule_ok u r v \<and> rules_ok u rs v)"
| "fields_ok u [] kvs = True"
| "fields_ok u ((k, rs) # sch) kvs =
     ((case map_of kvs k of
         None \<Rightarrow> u \<or> \<not> list_ex is_required rs
       | Some x \<Rightarrow> if x = JNull then list_ex is_nullable rs else rules_ok u rs x)
      \<and> fields_ok u sch kvs)"

section \<open>The validator\<close>

text \<open>
  \<open>Validator(schema).validate(document, update)\<close>, \<open>.errors\<close> and \<open>.normalized(document)\<close> of
  Cerberus, for the rules above. Normalisation comes first: a field with \<open>coerce\<close> is
  replaced by the coerced value, or keeps its value and gets an error. A field the schema
  does not have is an error. \<open>None\<close> without \<open>nullable\<close>, or a failed \<open>type\<close>, is
  the only error of its field: the remaining rules are dropped. Cerberus words the
  messages; here a message is the name of the violated rule.
\<close>

fun rule_name :: "rule \<Rightarrow> string" where
  "rule_name (Type t) = ''type''"
| "rule_name (Allowed allowed) = ''allowed''"
| "rule_name (Valueschema rs) = ''valueschema''"
| "rule_name (Schema sch) = ''schema''"
| "rule_name Required = ''required''"
| "rule_name Nullable = ''nullable''"
| "rule_name Coerce_int = ''coerce''"
| "rule_name (Rule p) = ''rule''"

definition coerce_field :: "library \<Rightarrow> rule list \<Rightarrow> json \<Rightarrow> json \<times> string list" where
  "coerce_field lib rs v =
     (if list_ex is_coerce rs
      then (case to_int lib v of None \<Rightarrow> (v, [''coerce'']) | Some i \<Rightarrow> (JInt i, []))
      else (v, []))"

definition field_messages :: "bool \<Rightarrow> rule list \<Rightarrow> json \<Rightarrow> string list" where
  "field_messages u rs v =
     (if v = JNull then (if list_ex is_nullable rs then [] else [''nullable''])
      else if list_ex (\<lambda>r. is_type_rule r \<and> \<not> rule_ok u r v) rs then [''type'']
      else map rule_name (filter (\<lambda>r. \<not> rule_ok u r v) rs))"

definition field_errors :: "library \<Rightarrow> bool \<Rightarrow> (string \<times> rule list) list \<Rightarrow> string \<times> json \<Rightarrow> dict" where
  "field_errors lib u sch kv =
     (case map_of sch (fst kv) of
        None \<Rightarrow> [(fst kv, JList [JStr ''unknown field''])]
      | Some rs \<Rightarrow>
          (case coerce_field lib rs (snd kv) of
             (v, coercion) \<Rightarrow>
               (case coercion @ field_messages u rs v of
                  [] \<Rightarrow> []
                | m # ms \<Rightarrow> [(fst kv, JList (map JStr (m # ms)))])))"

definition missing_errors :: "(string \<times> rule list) list \<Rightarrow> dict \<Rightarrow> dict" where
  "missing_errors sch document =
     map (\<lambda>(k, rs). (k, JList [JStr ''required'']))
       (filter (\<lambda>(k, rs). list_ex is_required rs \<and> \<not> has_key document k) sch)"

definition validator_errors ::
  "library \<Rightarrow> (string \<times> rule list) list \<Rightarrow> dict \<Rightarrow> bool \<Rightarrow> dict" where
  "validator_errors lib sch document u =
     concat (map (field_errors lib u sch) document) @
     (if u then [] else missing_errors sch document)"

definition normalized :: "library \<Rightarrow> (string \<times> rule list) list \<Rightarrow> dict \<Rightarrow> dict" where
  "normalized lib sch document =
     map (\<lambda>(k, v). case map_of sch k of
                      None \<Rightarrow> (k, v)
                    | Some rs \<Rightarrow> (k, fst (coerce_field lib rs v))) document"

section \<open>Parsing the query string\<close>

text \<open>\<open>qs.to_dict(flat=True)\<close> of a Werkzeug \<open>MultiDict\<close>: the first value of every key.\<close>

fun to_dict :: "(string \<times> string) list \<Rightarrow> (string \<times> string) list" where
  "to_dict [] = []"
| "to_dict ((k, v) # rest) = (k, v) # filter (\<lambda>(k', v'). k' \<noteq> k) (to_dict rest)"

definition query_string_schema ::
  "model_cls \<Rightarrow> (string \<times> rule list) list \<Rightarrow> (string \<times> rule list) list" where
  "query_string_schema cls schema =
     (let columns = column_names cls
      in [(''select'', [Type TDict, Allowed columns, Valueschema [Type TInteger]]),
          (''search'', [Type TDict,
                        Schema [(''t'', [Required]),
                                (''f'', [Required, Type TList, Allowed columns])]]),
          (''filter'', [Type TDict, Schema schema]),
          (''sort'', []),
          (''limit'', [Type TInteger, Coerce_int]),
          (''page'', [Type TInteger, Coerce_int])])"

definition json_keys :: "string list" where
  "json_keys = [''select'', ''search'', ''filter'']"

text \<open>The decoding loop: the first value that does not decode raises, for its key alone.\<close>

fun decode_loop :: "library \<Rightarrow> (string \<times> string) list \<Rightarrow> dict \<Rightarrow> error + dict" where
  "decode_loop lib [] decoded_qs = Inr decoded_qs"
| "decode_loop lib ((key, val) # rest) decoded_qs =
     (if key \<in> set json_keys
      then (case loads lib val of
              None \<Rightarrow> Inl (ValidationError [(key, JStr ''Invalid JSON string'')])
            | Some v \<Rightarrow> decode_loop lib rest (AList.update key v decoded_qs))
      else decode_loop lib rest (AList.update key (JStr val) decoded_qs))"

text \<open>\<open>_parse_query_string(cls, qs)\<close>; \<open>schema\<close> stands for \<open>generate_schema(cls)\<close>.\<close>

definition parse_query_string ::
  "library \<Rightarrow> (string \<times> rule list) list \<Rightarrow> model_cls \<Rightarrow> (string \<times> string) list \<Rightarrow> error + dict" where
  "parse_query_string lib schema cls qs =
     (case decode_loop lib (to_dict qs) [] of
        Inl e \<Rightarrow> Inl e
      | Inr decoded_qs \<Rightarrow>
          (case validator_errors lib (query_string_schema cls schema) decoded_qs True of
             [] \<Rightarrow> Inr (normalized lib (query_string_schema cls schema) decoded_qs)
           | e # es \<Rightarrow> Inl (ValidationError (e # es))))"

section \<open>The collection pipeline\<close>

text \<open>A Python \<open>int\<close> where the code needs one: \<open>min\<close> and \<open>paginate\<close> raise \<open>TypeError\<close> on
  anything else.\<close>

definition as_int :: "json \<Rightarrow> error + int" where
  "as_int v = (case v of JInt i \<Rightarrow> Inr i | JBool b \<Rightarrow> Inr (if b then 1 else 0) | _ \<Rightarrow> Inl TypeError)"

text \<open>
  The wrapper of \<open>Collection.__call__\<close>, in three parts that run one after the other on
  the parsed modifiers. \<open>org_id\<close> is \<open>current_org.id\<close> and \<open>table\<close> is what \<open>Model.query\<close>
  selects. First the filter set: the tenant filter, then \<open>filters.update\<close> with the
  \<open>filter\<close> modifier.
\<close>

definition active_filters :: "model_cls \<Rightarrow> int \<Rightarrow> dict \<Rightarrow> error + dict" where
  "active_filters Model org_id modifiers =
     (let filters = (if hasattr Model ''org_id'' then [(''org_id'', JInt org_id)] else [])
      in if has_key modifiers ''filter''
         then (case dict_get modifiers ''filter'' (JObj []) of
                 JObj f \<Rightarrow> Inr (dict_update filters f)
               | _ \<Rightarrow> Inl TypeError)
         else Inr filters)"

text \<open>Then the query: the filter, search and sort stages, in this order.\<close>

definition staged_query :: "model_cls \<Rightarrow> int \<Rightarrow> row list \<Rightarrow> dict \<Rightarrow> error + row list" where
  "staged_query Model org_id table modifiers =
     (case active_filters Model org_id modifiers of
        Inl e \<Rightarrow> Inl e
      | Inr filters \<Rightarrow>
          (case (if has_key modifiers ''search''
                 then search_modifier Model
                        (if filters \<noteq> [] then filter_modifier table filters else table)
                        (dict_get modifiers ''search'' JNull)
                 else Inr (if filters \<noteq> [] then filter_modifier table filters else table)) of
             Inl e \<Rightarrow> Inl e
           | Inr searched \<Rightarrow>
               if has_key modifiers ''sort''
               then sort_modifier Model searched (dict_get modifiers ''sort'' JNull)
               else Inr searched))"

text \<open>Last the page, the projection and the result: the payload and the headers
  \<open>X-Total\<close> and \<open>X-Page\<close>.\<close>

definition apply_modifiers ::
  "int \<Rightarrow> int \<Rightarrow> model_cls \<Rightarrow> int \<Rightarrow> row list \<Rightarrow> dict \<Rightarrow> error + (json \<times> dict)" where
  "apply_modifiers default_limit max_limit Model org_id table modifiers =
     (case staged_query Model org_id table modifiers of
        Inl e \<Rightarrow> Inl e
      | Inr query \<Rightarrow>
      (case as_int (dict_get modifiers ''page'' (JInt 1)) of
        Inl e \<Rightarrow> Inl e
      | Inr page \<Rightarrow>
      (case as_int (dict_get modifiers ''limit'' (JInt default_limit)) of
        Inl e \<Rightarrow> Inl e
      | Inr requested \<Rightarrow>
      (case paginate query page (min requested max_limit) of
        Inl e \<Rightarrow> Inl e
      | Inr result \<Rightarrow>
      (case (if has_key modifiers ''select''
             then (case dict_get modifiers ''select'' JNull of
                     JObj select \<Rightarrow> Inr (parse_select_modifier select)
                   | _ \<Rightarrow> Inl (AttributeError ''items''))
             else Inr []) of
        Inl e \<Rightarrow> Inl e
      | Inr export_data_params \<Rightarrow>
          Inr (export_data (items result) export_data_params,
               [(''X-Total'', JInt (int (total result))), (''X-Page'', JInt page)]))))))"

text \<open>The wrapper of \<open>Collection.__call__\<close>: \<open>collection(default_limit, max_limit)\<close> around a
  view that returns \<open>Model\<close>; \<open>args\<close> is \<open>request.args\<close>.\<close>

definition collection ::
  "library \<Rightarrow> (string \<times> rule list) list \<Rightarrow> int \<Rightarrow> int \<Rightarrow> model_cls \<Rightarrow> int \<Rightarrow> row list \<Rightarrow>
   (string \<times> string) list \<Rightarrow> error + (json \<times> dict)" where
  "collection lib schema default_limit max_limit Model org_id table request_args =
     (case parse_query_string lib schema Model request_args of
        Inl e \<Rightarrow> Inl e
      | Inr modifiers \<Rightarrow> apply_modifiers default_limit max_limit Model org_id table modifiers)"

section \<open>Requests and JSON responses\<close>

text \<open>The parts of Flask's \<open>request\<close> that the endpoints read: the method, whether the
  mimetype is JSON, the body and the query string.\<close>

record request =
  http_method :: string
  is_json :: bool
  body :: string
  args :: "(string \<times> string) list"

text \<open>
  \<open>request.get_json(silent)\<close> of Flask 1: \<open>None\<close> when the mimetype is not JSON; a body
  that does not decode gives \<open>None\<close> when \<open>silent\<close> and aborts with 400 otherwise.
\<close>

definition get_json :: "library \<Rightarrow> request \<Rightarrow> bool \<Rightarrow> error + json" where
  "get_json lib req silent =
     (if \<not> is_json req then Inr JNull
      else (case loads lib (body req) of
              Some v \<Rightarrow> Inr v
            | None \<Rightarrow> if silent then Inr JNull else Inl (Abort 400)))"

text \<open>
  What a view function returns: a payload alone, or a tuple with a status, with headers,
  or with both. A payload is a built-in object or a model instance. (None of the views
  below returns a \<open>Response\<close>.)
\<close>

datatype payload = Builtin json | Instance row

datatype returned =
    Single payload
  | With_status payload int
  | With_headers payload dict
  | With_both payload int dict

record response =
  response_body :: json
  status_code :: int
  response_headers :: dict

definition jsonify :: "payload \<Rightarrow> json" where
  "jsonify p = (case p of Builtin j \<Rightarrow> j | Instance r \<Rightarrow> JObj (export_row [] r))"

text \<open>The tail of the wrapper of \<open>json\<close>: a status that is given and not zero replaces
  200, headers that are given extend the response's.\<close>

fun make_response :: "returned \<Rightarrow> response" where
  "make_response (Single p) =
     \<lparr>response_body = jsonify p, status_code = 200, response_headers = []\<rparr>"
| "make_response (With_status p status) =
     \<lparr>response_body = jsonify p, status_code = (if status \<noteq> 0 then status else 200),
      response_headers = []\<rparr>"
| "make_response (With_headers p headers) =
     \<lparr>response_body = jsonify p, status_code = 200, response_headers = headers\<rparr>"
| "make_response (With_both p status headers) =
     \<lparr>response_body = jsonify p, status_code = (if status \<noteq> 0 then status else 200),
      response_headers = headers\<rparr>"

text \<open>
  The decorator \<open>json\<close>, around a view function that reads the request and the database
  and returns its object and the database it leaves. The checks of the content type and
  of the body sit behind \<open>request.method == "POST"\<close>.
\<close>

definition json_view ::
  "library \<Rightarrow> (request \<Rightarrow> 'db \<Rightarrow> (error + returned) \<times> 'db) \<Rightarrow> request \<Rightarrow> 'db \<Rightarrow>
   (error + response) \<times> 'db" where
  "json_view lib func req db =
     (if http_method req = ''POST'' \<and> \<not> is_json req then (Inl (Abort 415), db)
      else if http_method req = ''POST'' \<and> get_json lib req True = Inr JNull then (Inl (Abort 400), db)
      else (case func req db of
              (Inl e, db') \<Rightarrow> (Inl e, db')
            | (Inr ro, db') \<Rightarrow> (Inr (make_response ro), db')))"

section \<open>The generic views\<close>

text \<open>
  Modelled from the spec: \<open>import_data\<close> (\<open>saraki.utility.import_into_sqla_object\<close>) is not
  among the sources. The spec, section 4.5: a generic field-by-field assignment.
\<close>

definition import_data :: "row \<Rightarrow> dict \<Rightarrow> row" where
  "import_data model fields_data = dict_update model fields_data"

text \<open>
  \<open>add_view_func\<close>. The database is the table of the model class; \<open>session.add\<close> and
  \<open>commit\<close> append the new row. For a payload that is not a dict,
  \<open>payload["org_id"] = ...\<close> raises \<open>TypeError\<close> and \<open>Validator.validate\<close> raises
  \<open>DocumentError\<close>.
\<close>

definition add_view_func ::
  "library \<Rightarrow> (string \<times> rule list) list \<Rightarrow> bool \<Rightarrow> int \<Rightarrow> request \<Rightarrow> row list \<Rightarrow>
   (error + returned) \<times> row list" where
  "add_view_func lib schema is_org org_id req table =
     (case get_json lib req False of
        Inl e \<Rightarrow> (Inl e, table)
      | Inr (JObj p) \<Rightarrow>
          (let payload = (if is_org then AList.update ''org_id'' (JInt org_id) p else p)
           in case validator_errors lib schema payload False of
                e # es \<Rightarrow> (Inl (ValidationError (e # es)), table)
              | [] \<Rightarrow>
                  (let model = import_data [] (normalized lib schema payload)
                   in (Inr (With_status (Instance model) 201), table @ [model])))
      | Inr _ \<Rightarrow> (Inl (if is_org then TypeError else DocumentError), table))"

text \<open>\<open>query.one()\<close>: exactly one row, or \<open>NoResultFound\<close>, or \<open>MultipleResultsFound\<close>.\<close>

definition one :: "row list \<Rightarrow> error + row" where
  "one query = (case query of [] \<Rightarrow> Inl NoResultFound | [r] \<Rightarrow> Inr r | _ \<Rightarrow> Inl MultipleResultsFound)"

text \<open>
  \<open>item_view\<close>; \<open>kargs\<close> are the values of the path variables. The dict comprehension
  builds \<open>ident\<close> key by key, and \<open>ident["org_id"] = current_org.id\<close> replaces the entry of a
  path variable of that name. \<open>NoResultFound\<close> is caught
  and becomes \<open>abort(404)\<close>. \<open>DELETE\<close> removes the row found, \<open>PATCH\<close> replaces it by the
  row with the validated fields imported; a method that is none of the three returns
  \<open>None\<close>.
\<close>

definition item_view ::
  "library \<Rightarrow> (string \<times> rule list) list \<Rightarrow> string list \<Rightarrow> bool \<Rightarrow> int \<Rightarrow> dict \<Rightarrow> request \<Rightarrow>
   row list \<Rightarrow> (error + returned) \<times> row list" where
  "item_view lib schema ident_prop is_org org_id kargs req table =
     (let ident0 = foldl (\<lambda>d prop. AList.update prop (dict_get kargs prop JNull) d) [] ident_prop;
          ident = (if is_org then AList.update ''org_id'' (JInt org_id) ident0 else ident0)
      in case one (filter_by table ident) of
           Inl e \<Rightarrow> (Inl (if e = NoResultFound then Abort 404 else e), table)
         | Inr model \<Rightarrow>
             if http_method req = ''GET'' then (Inr (Single (Instance model)), table)
             else if http_method req = ''DELETE''
               then (Inr (Single (Instance model)), remove1 model table)
             else if http_method req = ''PATCH''
               then (case get_json lib req False of
                       Inl e \<Rightarrow> (Inl e, table)
                     | Inr (JObj payload) \<Rightarrow>
                         (case validator_errors lib schema payload True of
                            e # es \<Rightarrow> (Inl (ValidationError (e # es)), table)
                          | [] \<Rightarrow>
                              (let updated = import_data model (normalized lib schema payload)
                               in (Inr (Single (Instance updated)),
                                   map (\<lambda>r. if r = model then updated else r) table)))
                     | Inr _ \<Rightarrow> (Inl DocumentError, table))
             else (Inr (Single (Builtin JNull)), table))"

section \<open>A decoder and an integer reader for the examples\<close>

text \<open>
  To run the endpoints on concrete requests, the two library functions are given for a
  fragment of their inputs: JSON texts made of objects, arrays, strings without escapes,
  integers and the three literals, and decimal integer literals with an optional sign.
  The examples below use only such texts.
\<close>

definition is_space :: "char \<Rightarrow> bool" where
  "is_space c = (c \<in> set [CHR '' '', CHR 0x09, CHR 0x0A, CHR 0x0D])"

definition is_digit :: "char \<Rightarrow> bool" where
  "is_digit c = (c \<in> set ''0123456789'')"

definition digit_value :: "char \<Rightarrow> nat" where
  "digit_value c = of_char c - 48"

definition read_nat :: "string \<Rightarrow> nat" where
  "read_nat ds = foldl (\<lambda>n d. 10 * n + digit_value d) 0 ds"

text \<open>The characters of a string up to its closing quote, and the rest.\<close>

fun read_string :: "string \<Rightarrow> (string \<times> string) option" where
  "read_string [] = None"
| "read_string (c # cs) =
     (if c = CHR 0x22 then Some ([], cs)
      else if c = CHR 0x5C then None
      else (case read_string cs of None \<Rightarrow> None | Some (s, rest) \<Rightarrow> Some (c # s, rest)))"

definition read_number :: "string \<Rightarrow> (json \<times> string) option" where
  "read_number s =
     (let negative = (take 1 s = ''-'');
          t = (if negative then drop 1 s else s);
          ds = takeWhile is_digit t;
          rest = dropWhile is_digit t
      in if ds = [] \<or> (length ds > 1 \<and> hd ds = CHR ''0'') then None
         else if take 1 rest \<in> set [''.'', ''e'', ''E''] then None
         else Some (JInt (if negative then - int (read_nat ds) else int (read_nat ds)), rest))"

text \<open>The first argument bounds the nesting and the number of elements read; the length
  of the text is enough.\<close>

fun read_value :: "nat \<Rightarrow> string \<Rightarrow> (json \<times> string) option"
  and read_elements :: "nat \<Rightarrow> json list \<Rightarrow> string \<Rightarrow> (json \<times> string) option"
  and read_members :: "nat \<Rightarrow> dict \<Rightarrow> string \<Rightarrow> (json \<times> string) option" where
  "read_value 0 s = None"
| "read_value (Suc n) s =
     (case dropWhile is_space s of
        [] \<Rightarrow> None
      | c # cs \<Rightarrow>
          if c = CHR ''{'' then
            (case dropWhile is_space cs of
               [] \<Rightarrow> None
             | d # ds \<Rightarrow> if d = CHR ''}'' then Some (JObj [], ds) else read_members n [] cs)
          else if c = CHR ''['' then
            (case dropWhile is_space cs of
               [] \<Rightarrow> None
             | d # ds \<Rightarrow> if d = CHR '']'' then Some (JList [], ds) else read_elements n [] cs)
          else if c = CHR 0x22 then
            (case read_string cs of None \<Rightarrow> None | Some (str, rest) \<Rightarrow> Some (JStr str, rest))
          else if take 4 (c # cs) = ''null'' then Some (JNull, drop 4 (c # cs))
          else if take 4 (c # cs) = ''true'' then Some (JBool True, drop 4 (c # cs))
          else if take 5 (c # cs) = ''false'' then Some (JBool False, drop 5 (c # cs))
          else read_number (c # cs))"
| "read_elements 0 acc s = None"
| "read_elements (Suc n) acc s =
     (case read_value n s of
        None \<Rightarrow> None
      | Some (v, rest) \<Rightarrow>
          (case dropWhile is_space rest of
             [] \<Rightarrow> None
           | c # cs \<Rightarrow>
               if c = CHR '','' then read_elements n (acc @ [v]) cs
               else if c = CHR '']'' then Some (JList (acc @ [v]), cs)
               else None))"
| "read_members 0 acc s = None"
| "read_members (Suc n) acc s =
     (case dropWhile is_space s of
        [] \<Rightarrow> None
      | q # qs \<Rightarrow>
          if q \<noteq> CHR 0x22 then None
          else (case read_string qs of
                  None \<Rightarrow> None
                | Some (k, rest) \<Rightarrow>
                    (case dropWhile is_space rest of
                       [] \<Rightarrow> None
                     | c # cs \<Rightarrow>
                         if c \<noteq> CHR '':'' then None
                         else (case read_value n cs of
                                 None \<Rightarrow> None
                               | Some (v, rest') \<Rightarrow>
                                   (case dropWhile is_space rest' of
                                      [] \<Rightarrow> None
                                    | e # es \<Rightarrow>
                                        if e = CHR '','' then read_members n (AList.update k v acc) es
                                        else if e = CHR ''}'' then Some (JObj (AList.update k v acc), es)
                                        else None)))))"

definition json_decode :: "string \<Rightarrow> json option" where
  "json_decode s =
     (case read_value (Suc (length s)) s of
        None \<Rightarrow> None
      | Some (v, rest) \<Rightarrow> if dropWhile is_space rest = [] then Some v else None)"

definition read_int :: "json \<Rightarrow> int option" where
  "read_int v =
     (case v of
        JInt i \<Rightarrow> Some i
      | JBool b \<Rightarrow> Some (if b then 1 else 0)
      | JStr s \<Rightarrow>
          (let negative = (take 1 s = ''-'');
               ds = (if negative \<or> take 1 s = ''+'' then drop 1 s else s)
           in if ds \<noteq> [] \<and> list_all is_digit ds
              then Some (if negative then - int (read_nat ds) else int (read_nat ds))
              else None)
      | _ \<Rightarrow> None)"

definition python :: library where
  "python = \<lparr>loads = json_decode, to_int = read_int\<rparr>"

text \<open>
  A tenant-scoped model for the examples, the schema that \<open>generate_schema\<close> is taken to
  give for it (the type of every column), and a table with rows of two organizations.
\<close>

definition Product :: model_cls where
  "Product =
     \<lparr>tablename = ''product'',
      columns = [\<lparr>col_name = ''id'', col_type = PyInt, col_primary_key = True\<rparr>,
                 \<lparr>col_name = ''name'', col_type = PyStr, col_primary_key = False\<rparr>,
                 \<lparr>col_name = ''org_id'', col_type = PyInt, col_primary_key = False\<rparr>]\<rparr>"

definition Product_schema :: "(string \<times> rule list) list" where
  "Product_schema =
     [(''id'', [Type TInteger]), (''name'', [Type TString]), (''org_id'', [Type TInteger])]"

definition products :: "row list" where
  "products =
     [[(''id'', JInt 1), (''name'', JStr ''apple''), (''org_id'', JInt 1)],
      [(''id'', JInt 2), (''name'', JStr ''pear''), (''org_id'', JInt 2)],
      [(''id'', JInt 12), (''name'', JStr ''Pineapple''), (''org_id'', JInt 1)],
      [(''id'', JInt 21), (''name'', JStr ''plum''), (''org_id'', JInt 1)],
      [(''id'', JInt 3), (''name'', JStr ''fig''), (''org_id'', JInt 1)]]"

text \<open>What the rules of \<open>select\<close> ask of a decoded value: a dict whose keys are column
  names and whose values pass \<open>type: integer\<close>.\<close>

definition select_accepted :: "model_cls \<Rightarrow> json \<Rightarrow> bool" where
  "select_accepted cls v =
     (case v of
        JObj kvs \<Rightarrow> list_all (\<lambda>(k, x). k \<in> set (column_names cls) \<and> is_type TInteger x) kvs
      | _ \<Rightarrow> False)"

text \<open>
  The substring reading of a search predicate: the text of the column in the row (read
  behind a cast when the column is not a string column) holds the term as a substring,
  letter case aside.
\<close>

definition holds_term :: "string \<Rightarrow> column \<Rightarrow> row \<Rightarrow> bool" where
  "holds_term term c r =
     (case map_of r (col_name c) of
        None \<Rightarrow> False
      | Some v \<Rightarrow>
          (case text_value (col_type c \<noteq> PyStr) v of
             None \<Rightarrow> False
           | Some s \<Rightarrow> (\<exists>u w. map lower s = u @ map lower term @ w)))"

text \<open>
  What the lookup of \<open>item_view\<close> asks of a row: every identifier column equals the value
  of its path variable, except that on a tenant-scoped model \<open>org_id\<close> equals the caller's
  organization, whether or not it is an identifier column.
\<close>

definition identified :: "string list \<Rightarrow> bool \<Rightarrow> int \<Rightarrow> dict \<Rightarrow> row \<Rightarrow> bool" where
  "identified ident_prop is_org org_id kargs r =
     (list_all (\<lambda>prop. map_of r prop =
                  Some (if is_org \<and> prop = ''org_id'' then JInt org_id
                        else dict_get kargs prop JNull)) ident_prop
      \<and> (if is_org then map_of r ''org_id'' = Some (JInt org_id) else True))"

text \<open>Order lines for the examples: the identifier is the pair of both columns.\<close>

definition order_lines :: "row list" where
  "order_lines =
     [[(''order_id'', JInt 5), (''product_id'', JInt 8), (''quantity'', JInt 1)],
      [(''order_id'', JInt 5), (''product_id'', JInt 9), (''quantity'', JInt 2)],
      [(''order_id'', JInt 9), (''product_id'', JInt 5), (''quantity'', JInt 3)]]"

section \<open>Route rules: the generated URLs\<close>

lemma split_not_Nil: "split sep s \<noteq> []"
  by (induction s) (auto split: list.splits)

lemma join_split_Cons:
  "join ''-'' (split CHR ''_'' (c # cs)) =
     (if c = CHR ''_'' then CHR ''-'' else c) # join ''-'' (split CHR ''_'' cs)"
proof (cases "split CHR ''_'' cs")
  case Nil
  then show ?thesis using split_not_Nil by blast
next
  case (Cons w ws)
  then show ?thesis by (cases ws) auto
qed

lemma join_split_dashed: "join ''-'' (split CHR ''_'' s) = dashed s"
proof (induction s)
  case Nil
  show ?case by (simp add: dashed_def)
next
  case (Cons c cs)
  then show ?case by (simp add: join_split_Cons dashed_def del: split.simps)
qed

lemma rule_variable_path: "rule_variable c = path_variable c @ '',''"
  by (simp add: rule_variable_def path_variable_def)

lemma foldl_rule_variable:
  "foldl (\<lambda>r c. r @ rule_variable c) r cols = r @ concat (map rule_variable cols)"
  by (induction cols arbitrary: r) simp_all

lemma butlast_concat_rule_variable:
  "cols \<noteq> [] \<Longrightarrow>
   butlast (r @ concat (map rule_variable cols)) = r @ join '','' (map path_variable cols)"
proof (induction cols arbitrary: r)
  case Nil
  then show ?case by simp
next
  case (Cons c cs)
  show ?case
  proof (cases cs)
    case Nil
    then show ?thesis by (simp add: rule_variable_path butlast_append)
  next
    case (Cons d ds)
    have ne: "cs \<noteq> []" using Cons by simp
    have "butlast (r @ concat (map rule_variable (c # cs))) =
          butlast ((r @ rule_variable c) @ concat (map rule_variable cs))"
      by simp
    also have "\<dots> = (r @ rule_variable c) @ join '','' (map path_variable cs)"
      by (rule Cons.IH [OF ne])
    also have "\<dots> = r @ join '','' (map path_variable (c # cs))"
      using Cons by (simp add: rule_variable_path)
    finally show ?thesis .
  qed
qed

lemma getattr_all_Str:
  "map (\<lambda>n. find (\<lambda>c. col_name c = n) (columns cls)) names = map Some cols \<Longrightarrow>
   getattr_all cls (map Str names) = Inr cols"
proof (induction names arbitrary: cols)
  case Nil
  then show ?case by simp
next
  case (Cons n ns)
  then obtain c cs where cols: "cols = c # cs" by (cases cols) auto
  with Cons.prems have c: "find (\<lambda>c. col_name c = n) (columns cls) = Some c"
    and cs: "map (\<lambda>n. find (\<lambda>c. col_name c = n) (columns cls)) ns = map Some cs"
    by simp_all
  from Cons.IH [OF cs] c cols show ?case by (simp add: getattr_def)
qed

text \<open>
  Claim C9, as the code has it. The list rule is the base URL behind \<open>/\<close> (behind
  \<open>/orgs/<aud:orgname>/\<close> for a model with an \<open>org_id\<close> column), and the base URL is the
  table name with every underscore replaced by a dash unless a non-empty \<open>base_url\<close> is
  given. The item rule appends \<open>/\<close> and one path variable per identifier column, the
  variables separated by commas; the identifier columns are the primary-key columns unless
  \<open>ident\<close> names one column, which then is the only identifier. A variable is
  \<open><int:name>\<close> for an integer column and \<open><string:name>\<close> for any other.
\<close>

theorem route_rules_of_resource:
  assumes names: "names = (case ident of None \<Rightarrow> primary_key cls
                           | Some n \<Rightarrow> if n = [] then primary_key cls else [n])"
      and cols: "map (\<lambda>n. find (\<lambda>c. col_name c = n) (columns cls)) names = map Some cols"
      and ne: "names \<noteq> []"
      and base: "base = (case base_url of None \<Rightarrow> dashed (tablename cls)
                         | Some b \<Rightarrow> if b = [] then dashed (tablename cls) else b)"
      and lr: "list_rule = (if hasattr cls ''org_id'' then ''/orgs/<aud:orgname>/'' else ''/'') @ base"
  shows "add_resource_rules cls base_url (map_option Str ident) =
           Inr (list_rule, list_rule @ ''/'' @ join '','' (map path_variable cols))
         \<and> (\<forall>c. path_variable c =
               ''<'' @ (if col_type c = PyInt then ''int'' else ''string'') @ '':'' @ col_name c @ ''>'')"
proof -
  have ip: "(case map_option Str ident of
               None \<Rightarrow> map Str (primary_key cls)
             | Some a \<Rightarrow> if truthy_name a then [a] else map Str (primary_key cls)) = map Str names"
    using names by (cases ident) (auto simp: truthy_name_def)
  have b: "(case base_url of
              None \<Rightarrow> join ''-'' (split CHR ''_'' (tablename cls))
            | Some b \<Rightarrow> if b \<noteq> [] then b else join ''-'' (split CHR ''_'' (tablename cls))) = base"
    using base by (cases base_url) (auto simp: join_split_dashed)
  have ga: "getattr_all cls (map Str names) = Inr cols"
    by (rule getattr_all_Str [OF cols])
  have cne: "cols \<noteq> []" using cols ne by (cases cols) auto
  have item: "butlast (foldl (\<lambda>r c. r @ rule_variable c) (list_rule @ ''/'') cols) =
              list_rule @ ''/'' @ join '','' (map path_variable cols)"
    using butlast_concat_rule_variable [OF cne, of "list_rule @ ''/''"]
    by (simp add: foldl_rule_variable)
  have "add_resource_rules cls base_url (map_option Str ident) =
          generate_route_rules base cls (map Str names) (hasattr cls ''org_id'')"
    unfolding add_resource_rules_def Let_def ip b ..
  also have "\<dots> = Inr (list_rule, list_rule @ ''/'' @ join '','' (map path_variable cols))"
  proof -
    have lr': "(if hasattr cls ''org_id'' then ''/orgs/<aud:orgname>/'' @ base else ''/'' @ base) =
               list_rule"
      using lr by simp
    show ?thesis
      by (simp only: generate_route_rules_def Let_def lr' ga item sum.case)
  qed
  finally have 1: "add_resource_rules cls base_url (map_option Str ident) =
      Inr (list_rule, list_rule @ ''/'' @ join '','' (map path_variable cols))" .
  have 2: "\<forall>c. path_variable c =
      ''<'' @ (if col_type c = PyInt then ''int'' else ''string'') @ '':'' @ col_name c @ ''>''"
    by (auto simp: path_variable_def type_mapping_def split: python_type.splits)
  from 1 2 show ?thesis by blast
qed

text \<open>The docstring's example: \<open>/order-line\<close> and
  \<open>/order-line/<int:order_id>,<int:product_id>\<close>.\<close>

theorem route_rules_of_resource_witness:
  "add_resource_rules OrderLine None None =
     Inr (''/order-line'', ''/order-line/<int:order_id>,<int:product_id>'')"
  using route_rules_of_resource [where names = "[''order_id'', ''product_id'']" and ident = None and cls = OrderLine
               and cols = "columns OrderLine" and base = "''order-line''" and base_url = None
               and list_rule = "''/order-line''"]
  by (simp add: OrderLine_def primary_key_def hasattr_def column_names_def dashed_def
        path_variable_def type_mapping_def)

text \<open>
  Claim C9 as stated fails for an identifier-column list: the list is wrapped into a
  one-element tuple, so \<open>getattr\<close> receives the list itself and raises \<open>TypeError\<close>; no
  item rule with one variable per listed column is produced.
\<close>

theorem ident_list_not_accepted:
  "add_resource_rules OrderLine None (Some (Seq [''order_id'', ''product_id''])) = Inl TypeError"
  by (simp add: add_resource_rules_def OrderLine_def hasattr_def column_names_def truthy_name_def
        generate_route_rules_def getattr_def Let_def)

section \<open>Field selection: include and exclude\<close>

lemma select_loop_filter:
  "select_loop select include exclude =
     (include @ map fst (filter (\<lambda>(k, v). truthy v) select),
      exclude @ map fst (filter (\<lambda>(k, v). \<not> truthy v) select))"
  by (induction select "include" exclude rule: select_loop.induct) simp_all

text \<open>
  Claim C5. \<open>_parse_select_modifier\<close> puts the keys with a true value, in their order,
  into \<open>include\<close> and the keys with a false value into \<open>exclude\<close>, and passes each list on
  only when it is not empty; both can be non-empty at once. A record with the fields
  \<open>a\<close>, \<open>b\<close>, \<open>c\<close> exported with the parameters of \<open>{"a": 1}\<close> has the field \<open>a\<close> alone,
  and with those of \<open>{"a": 0}\<close> the fields \<open>b\<close> and \<open>c\<close>.
\<close>

theorem select_projection:
  "parse_select_modifier select =
     (if map fst (filter (\<lambda>(k, v). truthy v) select) \<noteq> []
      then [(''include'', map fst (filter (\<lambda>(k, v). truthy v) select))] else []) @
     (if map fst (filter (\<lambda>(k, v). \<not> truthy v) select) \<noteq> []
      then [(''exclude'', map fst (filter (\<lambda>(k, v). \<not> truthy v) select))] else [])
   \<and> parse_select_modifier [(''a'', JInt 1), (''b'', JInt 0)] =
       [(''include'', [''a'']), (''exclude'', [''b''])]
   \<and> export_data [[(''a'', x), (''b'', y), (''c'', z)]] (parse_select_modifier [(''a'', JInt 1)]) =
       JList [JObj [(''a'', x)]]
   \<and> export_data [[(''a'', x), (''b'', y), (''c'', z)]] (parse_select_modifier [(''a'', JInt 0)]) =
       JList [JObj [(''b'', y), (''c'', z)]]"
  by (simp add: parse_select_modifier_def select_loop_filter export_data_def export_row_def)

section \<open>Pagination: the effective limit\<close>



lemmas run_defs =
  apply_modifiers_def staged_query_def active_filters_def has_key_def dict_get_def hasattr_def
  column_names_def dict_update_def filter_modifier_def filter_by_def as_int_def paginate_def
  export_data_def export_row_def Let_def



section \<open>The tenant filter\<close>

text \<open>
  Claim C1, evaluated. The caller belongs to organization 1. Without a filter the list
  has the four rows of organization 1; with \<open>filter={"org_id": 2}\<close> the validated filter
  replaces the tenant entry in \<open>filters.update\<close>, and the list is the row of organization 2.
\<close>

theorem tenant_filter_overridden:
  \<open>collection python Product_schema 30 100 Product 1 products [] =
     Inr (JList [JObj [(''id'', JInt 1), (''name'', JStr ''apple''), (''org_id'', JInt 1)],
              JObj [(''id'', JInt 12), (''name'', JStr ''Pineapple''), (''org_id'', JInt 1)],
              JObj [(''id'', JInt 21), (''name'', JStr ''plum''), (''org_id'', JInt 1)],
              JObj [(''id'', JInt 3), (''name'', JStr ''fig''), (''org_id'', JInt 1)]],
          [(''X-Total'', JInt 4), (''X-Page'', JInt 1)])
   \<and> collection python Product_schema 30 100 Product 1 products [(''filter'', ''{"org_id": 2}'')] =
     Inr (JList [JObj [(''id'', JInt 2), (''name'', JStr ''pear''), (''org_id'', JInt 2)]],
          [(''X-Total'', JInt 1), (''X-Page'', JInt 1)])\<close>
  by (simp add: collection_def parse_query_string_def json_keys_def python_def
        json_decode_def is_space_def read_number_def is_digit_def read_nat_def digit_value_def
        validator_errors_def field_errors_def query_string_schema_def coerce_field_def
        field_messages_def normalized_def Product_schema_def
        run_defs Product_def products_def)

section \<open>Decoding errors\<close>

lemma decode_loop_first_failure:
  assumes "list_all (\<lambda>(k, v). k \<notin> set json_keys \<or> loads lib v \<noteq> None) pre"
      and "key \<in> set json_keys" and "loads lib val = None"
  shows "decode_loop lib (pre @ (key, val) # rest) acc =
           Inl (ValidationError [(key, JStr ''Invalid JSON string'')])"
  using assms
proof (induction pre arbitrary: acc)
  case Nil
  then show ?case by simp
next
  case (Cons p pre)
  obtain k v where p: "p = (k, v)" by (cases p)
  from Cons.prems(1) p have hd: "k \<notin> set json_keys \<or> loads lib v \<noteq> None"
    and tl: "list_all (\<lambda>(k, v). k \<notin> set json_keys \<or> loads lib v \<noteq> None) pre"
    by simp_all
  show ?case
  proof (cases "k \<in> set json_keys")
    case True
    with hd obtain j where "loads lib v = Some j" by auto
    with True p Cons.IH [OF tl Cons.prems(2) Cons.prems(3)] show ?thesis by simp
  next
    case False
    with p Cons.IH [OF tl Cons.prems(2) Cons.prems(3)] show ?thesis by simp
  qed
qed

text \<open>
  Claim C3, as the code has it. When the value of a JSON-encoded key does not decode, and
  every JSON-encoded key before it in the query string does, parsing fails with a
  \<open>ValidationError\<close> that maps this one key to \<open>Invalid JSON string\<close>; the keys behind it
  are not looked at.
\<close>

theorem decode_error_names_first_key:
  assumes "to_dict qs = pre @ (key, val) # rest"
      and "list_all (\<lambda>(k, v). k \<notin> set json_keys \<or> loads lib v \<noteq> None) pre"
      and "key \<in> set json_keys"
      and "loads lib val = None"
  shows "parse_query_string lib schema cls qs =
           Inl (ValidationError [(key, JStr ''Invalid JSON string'')])"
  using decode_loop_first_failure [OF assms(2) assms(3) assms(4), of rest "[]"] assms(1)
  by (simp add: parse_query_string_def)

lemmas decode_defs =
  json_decode_def is_space_def read_number_def is_digit_def read_nat_def digit_value_def

theorem decode_error_names_first_key_witness:
  "parse_query_string python [] OrderLine [(''limit'', ''5''), (''filter'', ''[''), (''select'', ''{'')] =
     Inl (ValidationError [(''filter'', JStr ''Invalid JSON string'')])"
  using decode_error_names_first_key [where qs = "[(''limit'', ''5''), (''filter'', ''[''), (''select'', ''{'')]"
      and pre = "[(''limit'', ''5'')]" and key = "''filter''" and val = "''[''"
      and rest = "[(''select'', ''{'')]" and lib = python and schema = "[]" and cls = OrderLine]
  by (simp add: json_keys_def python_def decode_defs)

text \<open>
  Claim C3 as stated fails: \<open>select\<close> and \<open>filter\<close> both hold invalid JSON, and the error
  names \<open>select\<close> alone.
\<close>

theorem second_invalid_key_not_reported:
  "loads python ''{'' = None \<and> loads python ''['' = None \<and>
   parse_query_string python [] OrderLine [(''select'', ''{''), (''filter'', ''['')] =
     Inl (ValidationError [(''select'', JStr ''Invalid JSON string'')])"
  by (simp add: parse_query_string_def json_keys_def python_def decode_defs)

section \<open>The select rule\<close>

lemma is_type_TInteger: "is_type TInteger x = (case x of JInt i \<Rightarrow> True | JBool b \<Rightarrow> True | _ \<Rightarrow> False)"
  by (cases x) simp_all

lemma valueschema_integer:
  "list_all (\<lambda>(k, x). if x = JNull then list_ex is_nullable [Type TInteger]
                        else rules_ok u [Type TInteger] x) kvs =
   list_all (\<lambda>(k, x). is_type TInteger x) kvs"
  by (induction kvs) auto

lemma select_messages:
  "(field_messages True
      [Type TDict, Allowed (column_names cls), Valueschema [Type TInteger]] v = []) =
   select_accepted cls v"
proof (cases v)
  case (JObj kvs)
  have "list_all (\<lambda>(k, x). k \<in> set (column_names cls) \<and> is_type TInteger x) kvs =
        (list_all (\<lambda>(k, x). k \<in> set (column_names cls)) kvs \<and>
         list_all (\<lambda>(k, x). is_type TInteger x) kvs)"
    by (induction kvs) auto
  with JObj show ?thesis
    by (auto simp: field_messages_def select_accepted_def valueschema_integer)
qed (simp_all add: field_messages_def select_accepted_def)

lemma select_field_errors:
  "field_errors lib True (query_string_schema cls schema) (''select'', v) =
     (if select_accepted cls v then []
      else [(''select'',
             JList (map JStr (field_messages True
               [Type TDict, Allowed (column_names cls), Valueschema [Type TInteger]] v)))])"
proof -
  let ?ms = "field_messages True
               [Type TDict, Allowed (column_names cls), Valueschema [Type TInteger]] v"
  have "(?ms = []) = select_accepted cls v" by (rule select_messages)
  then show ?thesis
    by (cases ?ms) (simp_all add: field_errors_def query_string_schema_def coerce_field_def Let_def)
qed

text \<open>
  Claim C6, as the code has it. A query string whose only key is \<open>select\<close>, with a value
  that decodes, is accepted exactly when the decoded value is a dict, every key is a column
  name and every value is a Python \<open>int\<close> (a \<open>bool\<close> is one); otherwise parsing fails with
  a \<open>ValidationError\<close>.
\<close>

theorem select_values_are_integers:
  assumes "loads lib text = Some v"
  shows "(select_accepted cls v \<longrightarrow>
            parse_query_string lib schema cls [(''select'', text)] = Inr [(''select'', v)])
       \<and> (\<not> select_accepted cls v \<longrightarrow>
            (\<exists>errors. parse_query_string lib schema cls [(''select'', text)] =
                        Inl (ValidationError errors)))
       \<and> select_accepted cls v =
           (\<exists>kvs. v = JObj kvs \<and>
              list_all (\<lambda>(k, x). k \<in> set (column_names cls) \<and>
                                   ((\<exists>i. x = JInt i) \<or> (\<exists>b. x = JBool b))) kvs)"
proof -
  have d: "decode_loop lib (to_dict [(''select'', text)]) [] = Inr [(''select'', v)]"
    using assms by (simp add: json_keys_def)
  have n: "normalized lib (query_string_schema cls schema) [(''select'', v)] = [(''select'', v)]"
    by (simp add: normalized_def query_string_schema_def coerce_field_def Let_def)
  have e: "validator_errors lib (query_string_schema cls schema) [(''select'', v)] True =
           field_errors lib True (query_string_schema cls schema) (''select'', v)"
    by (simp add: validator_errors_def)
  have pq: "parse_query_string lib schema cls [(''select'', text)] =
      (case validator_errors lib (query_string_schema cls schema) [(''select'', v)] True of
         [] \<Rightarrow> Inr (normalized lib (query_string_schema cls schema) [(''select'', v)])
       | e # es \<Rightarrow> Inl (ValidationError (e # es)))"
    unfolding parse_query_string_def d by simp
  have 1: "select_accepted cls v \<longrightarrow>
            parse_query_string lib schema cls [(''select'', text)] = Inr [(''select'', v)]"
    by (simp add: pq e n select_field_errors)
  have 2: "\<not> select_accepted cls v \<longrightarrow>
            (\<exists>errors. parse_query_string lib schema cls [(''select'', text)] =
                        Inl (ValidationError errors))"
    by (simp add: pq e select_field_errors)
  have i: "\<And>x. is_type TInteger x = ((\<exists>i. x = JInt i) \<or> (\<exists>b. x = JBool b))"
    by (case_tac x) simp_all
  have 3: "select_accepted cls v =
           (\<exists>kvs. v = JObj kvs \<and>
              list_all (\<lambda>(k, x). k \<in> set (column_names cls) \<and>
                                   ((\<exists>i. x = JInt i) \<or> (\<exists>b. x = JBool b))) kvs)"
    by (cases v) (simp_all add: select_accepted_def i)
  from 1 2 3 show ?thesis by blast
qed

theorem select_values_are_integers_witness:
  \<open>parse_query_string python [] OrderLine [(''select'', ''{"order_id": 1, "product_id": false}'')] =
     Inr [(''select'', JObj [(''order_id'', JInt 1), (''product_id'', JBool False)])]
   \<and> (\<exists>errors. parse_query_string python [] OrderLine [(''select'', ''{"order_id": "yes"}'')] =
                  Inl (ValidationError errors))\<close>
proof -
  have a: \<open>loads python ''{"order_id": 1, "product_id": false}'' =
           Some (JObj [(''order_id'', JInt 1), (''product_id'', JBool False)])\<close>
    by (simp add: python_def decode_defs)
  have b: \<open>loads python ''{"order_id": "yes"}'' = Some (JObj [(''order_id'', JStr ''yes'')])\<close>
    by (simp add: python_def decode_defs)
  show ?thesis
    using select_values_are_integers [OF a, of OrderLine "[]"]
          select_values_are_integers [OF b, of OrderLine "[]"]
    by (simp add: select_accepted_def OrderLine_def column_names_def)
qed

text \<open>Claim C6 as stated fails: the value 5 is not a boolean, and the entry is accepted.\<close>

theorem select_accepts_non_boolean:
  \<open>parse_query_string python [] OrderLine [(''select'', ''{"order_id": 5}'')] =
     Inr [(''select'', JObj [(''order_id'', JInt 5)])]\<close>
  by (simp add: parse_query_string_def json_keys_def python_def decode_defs
        validator_errors_def field_errors_def query_string_schema_def coerce_field_def
        field_messages_def normalized_def OrderLine_def column_names_def Let_def)

section \<open>Sort: no validation\<close>

lemma getattr_Str:
  "getattr cls (Str n) = (if hasattr cls n then getattr cls (Str n) else Inl (AttributeError n))"
  "hasattr cls n \<Longrightarrow> \<exists>c. getattr cls (Str n) = Inr c"
proof -
  have f: "(find (\<lambda>c. col_name c = n) (columns cls) = None) = (\<not> hasattr cls n)"
    by (auto simp: find_None_iff hasattr_def column_names_def)
  show "getattr cls (Str n) = (if hasattr cls n then getattr cls (Str n) else Inl (AttributeError n))"
    using f by (auto simp: getattr_def split: option.splits)
  show "hasattr cls n \<Longrightarrow> \<exists>c. getattr cls (Str n) = Inr c"
    using f by (auto simp: getattr_def split: option.splits)
qed

lemma sort_keys_missing:
  assumes "find (\<lambda>n. \<not> hasattr cls n)
             (map (\<lambda>w. if take 1 w = ''-'' then drop 1 w else w) ws) = Some n"
  shows "sort_keys cls ws = Inl (AttributeError n)"
  using assms
proof (induction ws)
  case Nil
  then show ?case by simp
next
  case (Cons w ws)
  let ?n = "if take 1 w = ''-'' then drop 1 w else w"
  show ?case
  proof (cases "hasattr cls ?n")
    case True
    then obtain c where c: "getattr cls (Str ?n) = Inr c" using getattr_Str(2) by blast
    from True Cons.prems have "find (\<lambda>n. \<not> hasattr cls n)
             (map (\<lambda>w. if take 1 w = ''-'' then drop 1 w else w) ws) = Some n"
      by simp
    from Cons.IH [OF this] c show ?thesis by (auto split: if_splits)
  next
    case False
    with Cons.prems have n: "n = ?n" by simp
    from False have "getattr cls (Str ?n) = Inl (AttributeError ?n)"
      using getattr_Str(1) [of cls ?n] by simp
    with n show ?thesis by (auto split: if_splits)
  qed
qed

text \<open>
  Claim C10. The \<open>sort\<close> entry of a query string never gives a validation error, and a
  query string that holds only \<open>sort\<close> parses to itself. When one of the comma-separated
  entries of \<open>sort\<close>, its leading \<open>-\<close> removed, is not an attribute of the model class, the
  sort stage raises the \<open>AttributeError\<close> of the first such entry on any query, and so does
  the collection endpoint for this query string: it is not a \<open>ValidationError\<close>.
\<close>

theorem sort_is_not_validated:
  assumes "find (\<lambda>n. \<not> hasattr cls n)
             (map (\<lambda>w. if take 1 w = ''-'' then drop 1 w else w) (split CHR '','' s)) = Some n"
  shows "field_errors lib True (query_string_schema cls schema) (''sort'', JStr s) = []
       \<and> parse_query_string lib schema cls [(''sort'', s)] = Inr [(''sort'', JStr s)]
       \<and> sort_modifier cls query (JStr s) = Inl (AttributeError n)
       \<and> collection lib schema default_limit max_limit cls org_id table [(''sort'', s)] =
           Inl (AttributeError n)"
proof -
  have f: "field_errors lib True (query_string_schema cls schema) (''sort'', JStr s) = []"
    by (simp add: field_errors_def query_string_schema_def coerce_field_def field_messages_def
          Let_def)
  have p: "parse_query_string lib schema cls [(''sort'', s)] = Inr [(''sort'', JStr s)]"
    by (simp add: parse_query_string_def json_keys_def validator_errors_def field_errors_def
          query_string_schema_def coerce_field_def field_messages_def normalized_def Let_def)
  have m: "sort_modifier cls q (JStr s) = Inl (AttributeError n)" for q
    by (simp add: sort_modifier_def sort_keys_missing [OF assms])
  have "staged_query cls org_id table [(''sort'', JStr s)] = Inl (AttributeError n)"
    by (simp add: staged_query_def active_filters_def has_key_def dict_get_def m)
  with p have c: "collection lib schema default_limit max_limit cls org_id table [(''sort'', s)] =
           Inl (AttributeError n)"
    by (simp add: collection_def apply_modifiers_def)
  from f p m c show ?thesis by blast
qed

theorem sort_is_not_validated_witness:
  "field_errors python True (query_string_schema Product Product_schema)
     (''sort'', JStr ''-price,name'') = []
   \<and> parse_query_string python Product_schema Product [(''sort'', ''-price,name'')] =
       Inr [(''sort'', JStr ''-price,name'')]
   \<and> sort_modifier Product products (JStr ''-price,name'') = Inl (AttributeError ''price'')
   \<and> collection python Product_schema 30 100 Product 1 products [(''sort'', ''-price,name'')] =
       Inl (AttributeError ''price'')"
  by (rule sort_is_not_validated) (simp add: hasattr_def column_names_def Product_def)

section \<open>Search: the pattern of the term\<close>

lemma like_plain_prefix:
  "CHR ''%'' \<notin> set p \<Longrightarrow> CHR ''_'' \<notin> set p \<Longrightarrow>
   like (p @ q) s = (\<exists>w. s = p @ w \<and> like q w)"
proof (induction p arbitrary: s)
  case Nil
  then show ?case by simp
next
  case (Cons a p)
  then have a: "a \<noteq> CHR ''%''" "a \<noteq> CHR ''_''"
    and ih: "\<And>s. like (p @ q) s = (\<exists>w. s = p @ w \<and> like q w)"
    by auto
  show ?case
  proof (cases s)
    case Nil
    with a show ?thesis by simp
  next
    case (Cons c cs)
    with a ih [of cs] show ?thesis by auto
  qed
qed

lemma like_percent: "like (CHR ''%'' # q) s = (\<exists>u t. s = u @ t \<and> like q t)"
proof (induction s)
  case Nil
  show ?case by simp
next
  case (Cons c cs)
  have "(\<exists>u t. c # cs = u @ t \<and> like q t) =
        (like q (c # cs) \<or> (\<exists>u t. cs = u @ t \<and> like q t))"
  proof
    assume "\<exists>u t. c # cs = u @ t \<and> like q t"
    then obtain u t where ut: "c # cs = u @ t" "like q t" by blast
    show "like q (c # cs) \<or> (\<exists>u t. cs = u @ t \<and> like q t)"
    proof (cases u)
      case Nil
      with ut show ?thesis by simp
    next
      case (Cons a u')
      with ut have "cs = u' @ t" by simp
      with ut(2) show ?thesis by blast
    qed
  next
    assume "like q (c # cs) \<or> (\<exists>u t. cs = u @ t \<and> like q t)"
    then show "\<exists>u t. c # cs = u @ t \<and> like q t"
    proof
      assume "like q (c # cs)"
      then have "c # cs = [] @ (c # cs) \<and> like q (c # cs)" by simp
      then show ?thesis by blast
    next
      assume "\<exists>u t. cs = u @ t \<and> like q t"
      then obtain u t where "cs = u @ t" "like q t" by blast
      then have "c # cs = (c # u) @ t \<and> like q t" by simp
      then show ?thesis by blast
    qed
  qed
  with Cons.IH show ?case by simp
qed

lemma like_percent_all: "like ''%'' s"
proof -
  have "s = s @ [] \<and> like [] []" by simp
  then have "\<exists>u t. s = u @ t \<and> like [] t" by blast
  then show ?thesis by (simp only: like_percent)
qed

lemma like_substring:
  assumes "CHR ''%'' \<notin> set p" and "CHR ''_'' \<notin> set p"
  shows "like (''%'' @ p @ ''%'') s = (\<exists>u w. s = u @ p @ w)"
proof -
  have "like (''%'' @ p @ ''%'') s = (\<exists>u t. s = u @ t \<and> like (p @ ''%'') t)"
    using like_percent [of "p @ ''%''" s] by simp
  also have "\<dots> = (\<exists>u t. s = u @ t \<and> (\<exists>w. t = p @ w))"
    using like_plain_prefix [OF assms, of "''%''"] like_percent_all by simp
  also have "\<dots> = (\<exists>u w. s = u @ p @ w)" by blast
  finally show ?thesis .
qed

lemma lower_wildcards:
  "(lower c = CHR ''%'') = (c = CHR ''%'')"
  "(lower c = CHR ''_'') = (c = CHR ''_'')"
proof -
  let ?up = "''ABCDEFGHIJKLMNOPQRSTUVWXYZ''" and ?lo = "''abcdefghijklmnopqrstuvwxyz''"
  have "(lower c = CHR ''%'') = (c = CHR ''%'') \<and> (lower c = CHR ''_'') = (c = CHR ''_'')"
  proof (cases "map_of (zip ?up ?lo) c")
    case None
    then show ?thesis by (simp add: lower_def)
  next
    case (Some l)
    then have "(c, l) \<in> set (zip ?up ?lo)" by (rule map_of_SomeD)
    then have "c \<in> set ?up" and "l \<in> set ?lo"
      by (auto dest: set_zip_leftD set_zip_rightD)
    then have "c \<noteq> CHR ''%''" "c \<noteq> CHR ''_''" "l \<noteq> CHR ''%''" "l \<noteq> CHR ''_''" by auto
    with Some show ?thesis by (simp add: lower_def)
  qed
  then show "(lower c = CHR ''%'') = (c = CHR ''%'')" "(lower c = CHR ''_'') = (c = CHR ''_'')"
    by blast+
qed

lemma ilike_substring:
  assumes "CHR ''%'' \<notin> set t" and "CHR ''_'' \<notin> set t"
  shows "ilike s (''%'' @ t @ ''%'') = (\<exists>u w. map lower s = u @ map lower t @ w)"
proof -
  have p: "CHR ''%'' \<notin> set (map lower t)"
  proof
    assume "CHR ''%'' \<in> set (map lower t)"
    then obtain x where "x \<in> set t" "lower x = CHR ''%''" by auto
    with assms(1) show False by (simp add: lower_wildcards)
  qed
  have u: "CHR ''_'' \<notin> set (map lower t)"
  proof
    assume "CHR ''_'' \<in> set (map lower t)"
    then obtain x where "x \<in> set t" "lower x = CHR ''_''" by auto
    with assms(2) show False by (simp add: lower_wildcards)
  qed
  have "map lower (''%'' @ t @ ''%'') = ''%'' @ map lower t @ ''%''"
    by (simp add: lower_wildcards)
  then show ?thesis using like_substring [OF p u] by (simp add: ilike_def)
qed

lemma ilike_filter_holds_term:
  assumes "CHR ''%'' \<notin> set t" and "CHR ''_'' \<notin> set t"
  shows "ilike_filter c t r = holds_term t c r"
proof -
  have "ilike s (CHR ''%'' # t @ ''%'') = (\<exists>u w. map lower s = u @ map lower t @ w)" for s
    using ilike_substring [OF assms, of s] by simp
  then show ?thesis
    by (simp add: ilike_filter_def holds_term_def split: option.splits)
qed

lemma search_filters_columns:
  "map (\<lambda>n. find (\<lambda>c. col_name c = n) (columns cls)) names = map Some cols \<Longrightarrow>
   search_filters cls t (map JStr names) = Inr (map (\<lambda>c. ilike_filter c t) cols)"
proof (induction names arbitrary: cols)
  case Nil
  then show ?case by simp
next
  case (Cons n ns)
  then obtain c cs where cols: "cols = c # cs" by (cases cols) auto
  with Cons.prems have c: "find (\<lambda>c. col_name c = n) (columns cls) = Some c"
    and cs: "map (\<lambda>n. find (\<lambda>c. col_name c = n) (columns cls)) ns = map Some cs"
    by simp_all
  from Cons.IH [OF cs] c cols show ?case by (simp add: getattr_def)
qed

lemma filter_by_Nil: "filter_by table [] = table"
  by (simp add: filter_by_def)

lemma search_modifier_columns:
  assumes "map_of d ''t'' = Some term"
      and "map_of d ''f'' = Some (JList (map JStr names))"
      and "map (\<lambda>n. find (\<lambda>c. col_name c = n) (columns cls)) names = map Some cols"
  shows "search_modifier cls q (JObj d) =
           Inr (case cols of
                  [] \<Rightarrow> q
                | c # cs \<Rightarrow> filter (\<lambda>r. list_ex (\<lambda>c. ilike_filter c (py_str term) r) cols) q)"
proof -
  have sf: "search_filters cls (py_str term) (map JStr names) =
            Inr (map (\<lambda>c. ilike_filter c (py_str term)) cols)"
    by (rule search_filters_columns [OF assms(3)])
  show ?thesis
    unfolding search_modifier_def
    by (cases cols) (simp_all add: assms(1) assms(2) sf list_ex_iff)
qed

lemma underscore_not_in_pear: "\<not> (\<exists>u w. ''pear'' = u @ ''p_a'' @ w)"
proof
  assume "\<exists>u w. ''pear'' = u @ ''p_a'' @ w"
  then obtain u w where e: "''pear'' = u @ ''p_a'' @ w" by blast
  have "CHR ''_'' \<in> set (u @ ''p_a'' @ w)" by simp
  with e have "CHR ''_'' \<in> set ''pear''" by simp
  then show False by simp
qed

text \<open>
  Claim C7, as the code has it. With a search modifier of a term and a list of column
  names, the rows of the staged query before the sort are the rows that pass the active
  filters and, of these, the rows that satisfy one of the predicates
  \<open>column ILIKE '%term%'\<close> of the listed columns (no listed column, no condition); the sort
  stage, when asked for, runs on these rows. A predicate reads the text of the column,
  behind a cast when the column is not a string column (the decimal digits for an
  integer). For a term without the wildcards \<open>%\<close> and \<open>_\<close> of \<open>LIKE\<close> the predicate is a
  case-insensitive substring match; the term is not escaped, so a wildcard in it acts as
  one. The term \<open>1\<close> over the integer column \<open>id\<close> matches the rows 1, 12 and 21 of the
  caller and not the row 3.
\<close>

theorem search_is_ilike_pattern:
  assumes "map_of modifiers ''search'' = Some (JObj d)"
      and "active_filters cls org_id modifiers = Inr filters"
      and "map_of d ''t'' = Some t"
      and "map_of d ''f'' = Some (JList (map JStr names))"
      and "map (\<lambda>n. find (\<lambda>c. col_name c = n) (columns cls)) names = map Some cols"
  shows "staged_query cls org_id table modifiers =
           (if has_key modifiers ''sort''
            then sort_modifier cls
                   (case cols of
                      [] \<Rightarrow> filter_by table filters
                    | c # cs \<Rightarrow>
                        filter (\<lambda>r. list_ex (\<lambda>c. ilike_filter c (py_str t) r) cols)
                          (filter_by table filters))
                   (dict_get modifiers ''sort'' JNull)
            else Inr (case cols of
                        [] \<Rightarrow> filter_by table filters
                      | c # cs \<Rightarrow>
                          filter (\<lambda>r. list_ex (\<lambda>c. ilike_filter c (py_str t) r) cols)
                            (filter_by table filters)))
       \<and> (\<forall>c r. CHR ''%'' \<notin> set (py_str t) \<and> CHR ''_'' \<notin> set (py_str t) \<longrightarrow>
             ilike_filter c (py_str t) r = holds_term (py_str t) c r)
       \<and> (\<forall>c r. ilike_filter c (py_str t) r =
             (case map_of r (col_name c) of
                None \<Rightarrow> False
              | Some v \<Rightarrow>
                  (case text_value (col_type c \<noteq> PyStr) v of
                     None \<Rightarrow> False
                   | Some s \<Rightarrow> like (map lower (''%'' @ py_str t @ ''%'')) (map lower s))))
       \<and> text_value True (JInt i) = Some (dec_int i)
       \<and> staged_query Product 1 products
           [(''search'', JObj [(''t'', JStr ''1''), (''f'', JList [JStr ''id''])])] =
           Inr [[(''id'', JInt 1), (''name'', JStr ''apple''), (''org_id'', JInt 1)],
                [(''id'', JInt 12), (''name'', JStr ''Pineapple''), (''org_id'', JInt 1)],
                [(''id'', JInt 21), (''name'', JStr ''plum''), (''org_id'', JInt 1)]]"
proof -
  note sm = search_modifier_columns [OF assms(3) assms(4) assms(5)]
  have fq: "(if filters \<noteq> [] then filter_modifier table filters else table) =
            filter_by table filters"
    by (simp add: filter_modifier_def filter_by_Nil)
  have 1: "staged_query cls org_id table modifiers =
           (if has_key modifiers ''sort''
            then sort_modifier cls
                   (case cols of
                      [] \<Rightarrow> filter_by table filters
                    | c # cs \<Rightarrow>
                        filter (\<lambda>r. list_ex (\<lambda>c. ilike_filter c (py_str t) r) cols)
                          (filter_by table filters))
                   (dict_get modifiers ''sort'' JNull)
            else Inr (case cols of
                        [] \<Rightarrow> filter_by table filters
                      | c # cs \<Rightarrow>
                          filter (\<lambda>r. list_ex (\<lambda>c. ilike_filter c (py_str t) r) cols)
                            (filter_by table filters)))"
    unfolding staged_query_def
    by (simp add: assms(1) assms(2) has_key_def dict_get_def fq sm)
  have 2: "\<forall>c r. CHR ''%'' \<notin> set (py_str t) \<and> CHR ''_'' \<notin> set (py_str t) \<longrightarrow>
             ilike_filter c (py_str t) r = holds_term (py_str t) c r"
    using ilike_filter_holds_term by blast
  have 3: "\<forall>c r. ilike_filter c (py_str t) r =
             (case map_of r (col_name c) of
                None \<Rightarrow> False
              | Some v \<Rightarrow>
                  (case text_value (col_type c \<noteq> PyStr) v of
                     None \<Rightarrow> False
                   | Some s \<Rightarrow> like (map lower (''%'' @ py_str t @ ''%'')) (map lower s)))"
    by (simp add: ilike_filter_def ilike_def split: option.splits)
  have 4: "text_value True (JInt i) = Some (dec_int i)"
    by (simp add: text_value_def)
  have 5: "staged_query Product 1 products
           [(''search'', JObj [(''t'', JStr ''1''), (''f'', JList [JStr ''id''])])] =
           Inr [[(''id'', JInt 1), (''name'', JStr ''apple''), (''org_id'', JInt 1)],
                [(''id'', JInt 12), (''name'', JStr ''Pineapple''), (''org_id'', JInt 1)],
                [(''id'', JInt 21), (''name'', JStr ''plum''), (''org_id'', JInt 1)]]"
    by (simp add: run_defs Product_def products_def search_modifier_def getattr_def
          ilike_filter_def text_value_def dec_int_def ilike_def lower_def py_str_def)
  from 1 2 3 4 5 show ?thesis by blast
qed

text \<open>The search for \<open>1\<close> over \<open>id\<close> by a caller of organization 1, and the substring
  reading of the predicate for this term.\<close>

theorem search_is_ilike_pattern_witness:
  "staged_query Product 1 products
     [(''search'', JObj [(''t'', JStr ''1''), (''f'', JList [JStr ''id''])])] =
     Inr (filter (\<lambda>r. list_ex (\<lambda>c. ilike_filter c ''1'' r)
                         [\<lparr>col_name = ''id'', col_type = PyInt, col_primary_key = True\<rparr>])
            (filter_by products [(''org_id'', JInt 1)]))
   \<and> (\<forall>c r. ilike_filter c ''1'' r = holds_term ''1'' c r)
   \<and> staged_query Product 1 products
       [(''search'', JObj [(''t'', JStr ''1''), (''f'', JList [JStr ''id''])])] =
       Inr [[(''id'', JInt 1), (''name'', JStr ''apple''), (''org_id'', JInt 1)],
            [(''id'', JInt 12), (''name'', JStr ''Pineapple''), (''org_id'', JInt 1)],
            [(''id'', JInt 21), (''name'', JStr ''plum''), (''org_id'', JInt 1)]]"
proof -
  let ?d = "[(''t'', JStr ''1''), (''f'', JList [JStr ''id''])]"
  let ?m = "[(''search'', JObj ?d)]"
  have a: "map_of ?m ''search'' = Some (JObj ?d)" by simp
  have b: "active_filters Product 1 ?m = Inr [(''org_id'', JInt 1)]"
    by (simp add: active_filters_def has_key_def hasattr_def column_names_def Product_def)
  have c: "map_of ?d ''t'' = Some (JStr ''1'')" by simp
  have d: "map_of ?d ''f'' = Some (JList (map JStr [''id'']))" by simp
  have e: "map (\<lambda>n. find (\<lambda>c. col_name c = n) (columns Product)) [''id''] =
           map Some [\<lparr>col_name = ''id'', col_type = PyInt, col_primary_key = True\<rparr>]"
    by (simp add: Product_def)
  note th = search_is_ilike_pattern [OF a b c d e, where table = products]
  have 1: "staged_query Product 1 products ?m =
     Inr (filter (\<lambda>r. list_ex (\<lambda>c. ilike_filter c ''1'' r)
                         [\<lparr>col_name = ''id'', col_type = PyInt, col_primary_key = True\<rparr>])
            (filter_by products [(''org_id'', JInt 1)]))"
    using th [THEN conjunct1] by (simp add: has_key_def py_str_def)
  have 2: "\<forall>c r. ilike_filter c ''1'' r = holds_term ''1'' c r"
    using th [THEN conjunct2, THEN conjunct1] by (simp add: py_str_def)
  have 3: "staged_query Product 1 products ?m =
       Inr [[(''id'', JInt 1), (''name'', JStr ''apple''), (''org_id'', JInt 1)],
            [(''id'', JInt 12), (''name'', JStr ''Pineapple''), (''org_id'', JInt 1)],
            [(''id'', JInt 21), (''name'', JStr ''plum''), (''org_id'', JInt 1)]]"
    using th [THEN conjunct2, THEN conjunct2, THEN conjunct2, THEN conjunct2] .
  from 1 2 3 show ?thesis by blast
qed

text \<open>
  Claim C7 as stated fails: for a caller of organization 2 the term \<open>p_a\<close>, searched in
  \<open>name\<close>, matches \<open>pear\<close>, which does not hold \<open>p_a\<close> as a substring.
\<close>

theorem wildcard_in_term_matches:
  "staged_query Product 2 products
     [(''search'', JObj [(''t'', JStr ''p_a''), (''f'', JList [JStr ''name''])])] =
     Inr [[(''id'', JInt 2), (''name'', JStr ''pear''), (''org_id'', JInt 2)]]
   \<and> \<not> holds_term ''p_a'' \<lparr>col_name = ''name'', col_type = PyStr, col_primary_key = False\<rparr>
         [(''id'', JInt 2), (''name'', JStr ''pear''), (''org_id'', JInt 2)]"
proof -
  have 1: "staged_query Product 2 products
     [(''search'', JObj [(''t'', JStr ''p_a''), (''f'', JList [JStr ''name''])])] =
     Inr [[(''id'', JInt 2), (''name'', JStr ''pear''), (''org_id'', JInt 2)]]"
    by (simp add: run_defs Product_def products_def search_modifier_def getattr_def
          ilike_filter_def text_value_def ilike_def lower_def py_str_def)
  have 2: "\<not> holds_term ''p_a'' \<lparr>col_name = ''name'', col_type = PyStr, col_primary_key = False\<rparr>
         [(''id'', JInt 2), (''name'', JStr ''pear''), (''org_id'', JInt 2)]"
    using underscore_not_in_pear by (simp add: holds_term_def text_value_def lower_def)
  from 1 2 show ?thesis by blast
qed

section \<open>Item lookup\<close>

lemma match_alist:
  "distinct (map fst al) \<Longrightarrow>
   list_all (\<lambda>(k, v). map_of r k = Some v) al =
     (\<forall>k v. map_of al k = Some v \<longrightarrow> map_of r k = Some v)"
proof (induction al)
  case Nil
  show ?case by simp
next
  case (Cons a al)
  obtain k' v' where a: "a = (k', v')" by (cases a)
  from Cons.prems a have fresh: "map_of al k' = None" and d: "distinct (map fst al)"
    by (auto simp: map_of_eq_None_iff)
  have "(\<forall>k v. map_of ((k', v') # al) k = Some v \<longrightarrow> map_of r k = Some v) =
        (map_of r k' = Some v' \<and> (\<forall>k v. map_of al k = Some v \<longrightarrow> map_of r k = Some v))"
    using fresh by auto
  with Cons.IH [OF d] a show ?case by simp
qed

lemma ident_dict:
  "distinct (map fst d0) \<Longrightarrow>
   distinct (map fst (foldl (\<lambda>d p. AList.update p (f p) d) d0 props)) \<and>
   (\<forall>k. map_of (foldl (\<lambda>d p. AList.update p (f p) d) d0 props) k =
          (if k \<in> set props then Some (f k) else map_of d0 k))"
proof (induction props arbitrary: d0)
  case Nil
  then show ?case by simp
next
  case (Cons p ps)
  have d: "distinct (map fst (AList.update p (f p) d0))"
    using Cons.prems by (rule AList.distinct_update)
  from Cons.IH [OF d] show ?case
    by (auto simp: AList.update_conv')
qed

lemma filter_by_ident:
  "filter_by table
     (if is_org
      then AList.update ''org_id'' (JInt org_id)
             (foldl (\<lambda>d prop. AList.update prop (dict_get kargs prop JNull) d) [] ident_prop)
      else foldl (\<lambda>d prop. AList.update prop (dict_get kargs prop JNull) d) [] ident_prop) =
   filter (identified ident_prop is_org org_id kargs) table"
proof -
  let ?base = "foldl (\<lambda>d prop. AList.update prop (dict_get kargs prop JNull) d) [] ident_prop"
  define ident where
    "ident = (if is_org then AList.update ''org_id'' (JInt org_id) ?base else ?base)"
  have "distinct (map fst ([] :: dict))" by simp
  note b = ident_dict [OF this, of "\<lambda>prop. dict_get kargs prop JNull" ident_prop]
  have d0: "distinct (map fst ?base)" using b by blast
  have m0: "map_of ?base k =
            (if k \<in> set ident_prop then Some (dict_get kargs k JNull) else None)" for k
    using b by simp
  have d: "distinct (map fst ident)"
    using d0 by (simp add: ident_def AList.distinct_update)
  have m: "map_of ident k =
           (if is_org \<and> k = ''org_id'' then Some (JInt org_id)
            else if k \<in> set ident_prop then Some (dict_get kargs k JNull) else None)" for k
    by (simp add: ident_def AList.update_conv' m0)
  have "list_all (\<lambda>(k, v). map_of r k = Some v) ident =
        identified ident_prop is_org org_id kargs r" for r
  proof -
    have "list_all (\<lambda>(k, v). map_of r k = Some v) ident =
          (\<forall>k v. map_of ident k = Some v \<longrightarrow> map_of r k = Some v)"
      by (rule match_alist [OF d])
    also have "\<dots> = identified ident_prop is_org org_id kargs r"
      unfolding identified_def list_all_iff by (auto simp: m split: if_splits)
    finally show ?thesis .
  qed
  then have "filter_by table ident = filter (identified ident_prop is_org org_id kargs) table"
    by (simp add: filter_by_def)
  then show ?thesis by (simp only: ident_def)
qed

text \<open>
  Claim C8, as the code has it. \<open>item_view\<close> looks for the rows in which every identifier
  column equals the value of its path variable; on a tenant-scoped model \<open>org_id\<close> is
  compared with the caller's organization instead, also when it is an identifier column
  with a path variable of its own. When no row is found the answer is 404 and the table
  is untouched, whatever the method. When exactly one row is found, a GET returns it and
  leaves the table as it is, a DELETE removes it, and a PATCH validates the payload and
  replaces it by the updated row, or fails and leaves the table as it is. When several
  rows are found, \<open>one()\<close> raises and the table is untouched.
\<close>

theorem item_lookup_by_identifier:
  "(filter (identified ident_prop is_org org_id kargs) table = [] \<longrightarrow>
      item_view lib schema ident_prop is_org org_id kargs req table =
        (Inl (Abort 404), table))
 \<and> (filter (identified ident_prop is_org org_id kargs) table = [model]
      \<and> http_method req = ''GET'' \<longrightarrow>
      item_view lib schema ident_prop is_org org_id kargs req table =
        (Inr (Single (Instance model)), table))
 \<and> (filter (identified ident_prop is_org org_id kargs) table = [model]
      \<and> http_method req = ''DELETE'' \<longrightarrow>
      item_view lib schema ident_prop is_org org_id kargs req table =
        (Inr (Single (Instance model)), remove1 model table))
 \<and> (filter (identified ident_prop is_org org_id kargs) table = [model]
      \<and> http_method req = ''PATCH'' \<longrightarrow>
      item_view lib schema ident_prop is_org org_id kargs req table =
        (case get_json lib req False of
           Inl e \<Rightarrow> (Inl e, table)
         | Inr (JObj payload) \<Rightarrow>
             (case validator_errors lib schema payload True of
                e # es \<Rightarrow> (Inl (ValidationError (e # es)), table)
              | [] \<Rightarrow>
                  (Inr (Single (Instance (import_data model (normalized lib schema payload)))),
                   map (\<lambda>r. if r = model
                             then import_data model (normalized lib schema payload) else r)
                     table))
         | Inr _ \<Rightarrow> (Inl DocumentError, table)))
 \<and> (length (filter (identified ident_prop is_org org_id kargs) table) > 1 \<longrightarrow>
      item_view lib schema ident_prop is_org org_id kargs req table =
        (Inl MultipleResultsFound, table))"
proof -
  note f = filter_by_ident [where table = table and org_id = org_id and kargs = kargs
                              and is_org = is_org and ident_prop = ident_prop]
  let ?found = "filter (identified ident_prop is_org org_id kargs) table"
  have 1: "?found = [] \<longrightarrow>
            item_view lib schema ident_prop is_org org_id kargs req table =
              (Inl (Abort 404), table)"
    by (simp add: item_view_def Let_def f one_def)
  have 2: "?found = [model] \<and> http_method req = ''GET'' \<longrightarrow>
            item_view lib schema ident_prop is_org org_id kargs req table =
              (Inr (Single (Instance model)), table)"
    by (simp add: item_view_def Let_def f one_def)
  have 3: "?found = [model] \<and> http_method req = ''DELETE'' \<longrightarrow>
            item_view lib schema ident_prop is_org org_id kargs req table =
              (Inr (Single (Instance model)), remove1 model table)"
    by (simp add: item_view_def Let_def f one_def)
  have 4: "?found = [model] \<and> http_method req = ''PATCH'' \<longrightarrow>
      item_view lib schema ident_prop is_org org_id kargs req table =
        (case get_json lib req False of
           Inl e \<Rightarrow> (Inl e, table)
         | Inr (JObj payload) \<Rightarrow>
             (case validator_errors lib schema payload True of
                e # es \<Rightarrow> (Inl (ValidationError (e # es)), table)
              | [] \<Rightarrow>
                  (Inr (Single (Instance (import_data model (normalized lib schema payload)))),
                   map (\<lambda>r. if r = model
                             then import_data model (normalized lib schema payload) else r)
                     table))
         | Inr _ \<Rightarrow> (Inl DocumentError, table))"
    by (auto simp: item_view_def Let_def f one_def split: sum.splits json.splits list.splits)
  have 5: "length ?found > 1 \<longrightarrow>
            item_view lib schema ident_prop is_org org_id kargs req table =
              (Inl MultipleResultsFound, table)"
  proof
    assume "length ?found > 1"
    then obtain a b rest where "?found = a # b # rest"
      by (cases ?found rule: list.exhaust; simp; case_tac x22; simp)
    then show "item_view lib schema ident_prop is_org org_id kargs req table =
              (Inl MultipleResultsFound, table)"
      by (simp add: item_view_def Let_def f one_def)
  qed
  from 1 2 3 4 5 show ?thesis by blast
qed

lemmas item_defs =
  identified_def order_lines_def products_def dict_get_def

text \<open>
  The route \<open>/order-line/5,9\<close>: the line of order 5 and product 9, not the line of order 9
  and product 5; a DELETE of a line that does not exist, and of the line 5,9; for a
  caller of organization 1, product 12 of its own and product 2 of organization 2; and a
  PATCH of the name of product 12.
\<close>

theorem item_lookup_by_identifier_witness:
  \<open>item_view python [] [''order_id'', ''product_id''] False 0
     [(''order_id'', JInt 5), (''product_id'', JInt 9)]
     \<lparr>http_method = ''GET'', is_json = False, body = [], args = []\<rparr> order_lines =
     (Inr (Single (Instance [(''order_id'', JInt 5), (''product_id'', JInt 9), (''quantity'', JInt 2)])),
      order_lines)
   \<and> item_view python [] [''order_id'', ''product_id''] False 0
     [(''order_id'', JInt 5), (''product_id'', JInt 7)]
     \<lparr>http_method = ''DELETE'', is_json = False, body = [], args = []\<rparr> order_lines =
     (Inl (Abort 404), order_lines)
   \<and> item_view python [] [''order_id'', ''product_id''] False 0
     [(''order_id'', JInt 5), (''product_id'', JInt 9)]
     \<lparr>http_method = ''DELETE'', is_json = False, body = [], args = []\<rparr> order_lines =
     (Inr (Single (Instance [(''order_id'', JInt 5), (''product_id'', JInt 9), (''quantity'', JInt 2)])),
      [[(''order_id'', JInt 5), (''product_id'', JInt 8), (''quantity'', JInt 1)],
       [(''order_id'', JInt 9), (''product_id'', JInt 5), (''quantity'', JInt 3)]])
   \<and> item_view python Product_schema [''id''] True 1 [(''id'', JInt 12)]
     \<lparr>http_method = ''GET'', is_json = False, body = [], args = []\<rparr> products =
     (Inr (Single (Instance [(''id'', JInt 12), (''name'', JStr ''Pineapple''), (''org_id'', JInt 1)])),
      products)
   \<and> item_view python Product_schema [''id''] True 1 [(''id'', JInt 2)]
     \<lparr>http_method = ''GET'', is_json = False, body = [], args = []\<rparr> products =
     (Inl (Abort 404), products)
   \<and> item_view python Product_schema [''id''] True 1 [(''id'', JInt 12)]
     \<lparr>http_method = ''PATCH'', is_json = True, body = ''{"name": "kiwi"}'', args = []\<rparr> products =
     (Inr (Single (Instance [(''id'', JInt 12), (''name'', JStr ''kiwi''), (''org_id'', JInt 1)])),
      [[(''id'', JInt 1), (''name'', JStr ''apple''), (''org_id'', JInt 1)],
       [(''id'', JInt 2), (''name'', JStr ''pear''), (''org_id'', JInt 2)],
       [(''id'', JInt 12), (''name'', JStr ''kiwi''), (''org_id'', JInt 1)],
       [(''id'', JInt 21), (''name'', JStr ''plum''), (''org_id'', JInt 1)],
       [(''id'', JInt 3), (''name'', JStr ''fig''), (''org_id'', JInt 1)]])\<close>
proof -
  let ?line = "[(''order_id'', JInt 5), (''product_id'', JInt 9), (''quantity'', JInt 2)]"
  let ?p12 = "[(''id'', JInt 12), (''name'', JStr ''Pineapple''), (''org_id'', JInt 1)]"
  have 1: "item_view python [] [''order_id'', ''product_id''] False 0
     [(''order_id'', JInt 5), (''product_id'', JInt 9)]
     \<lparr>http_method = ''GET'', is_json = False, body = [], args = []\<rparr> order_lines =
     (Inr (Single (Instance ?line)), order_lines)"
    using item_lookup_by_identifier [where is_org = False
          and ident_prop = "[''order_id'', ''product_id'']"
          and kargs = "[(''order_id'', JInt 5), (''product_id'', JInt 9)]"
          and table = order_lines and model = ?line
          and req = "\<lparr>http_method = ''GET'', is_json = False, body = [], args = []\<rparr>"
          and lib = python and schema = "[]" and org_id = 0]
    by (simp add: item_defs)
  have 2: "item_view python [] [''order_id'', ''product_id''] False 0
     [(''order_id'', JInt 5), (''product_id'', JInt 7)]
     \<lparr>http_method = ''DELETE'', is_json = False, body = [], args = []\<rparr> order_lines =
     (Inl (Abort 404), order_lines)"
    using item_lookup_by_identifier [where is_org = False
          and ident_prop = "[''order_id'', ''product_id'']"
          and kargs = "[(''order_id'', JInt 5), (''product_id'', JInt 7)]"
          and table = order_lines
          and req = "\<lparr>http_method = ''DELETE'', is_json = False, body = [], args = []\<rparr>"
          and lib = python and schema = "[]" and org_id = 0]
    by (simp add: item_defs)
  have 3: "item_view python [] [''order_id'', ''product_id''] False 0
     [(''order_id'', JInt 5), (''product_id'', JInt 9)]
     \<lparr>http_method = ''DELETE'', is_json = False, body = [], args = []\<rparr> order_lines =
     (Inr (Single (Instance ?line)),
      [[(''order_id'', JInt 5), (''product_id'', JInt 8), (''quantity'', JInt 1)],
       [(''order_id'', JInt 9), (''product_id'', JInt 5), (''quantity'', JInt 3)]])"
    using item_lookup_by_identifier [where is_org = False
          and ident_prop = "[''order_id'', ''product_id'']"
          and kargs = "[(''order_id'', JInt 5), (''product_id'', JInt 9)]"
          and table = order_lines and model = ?line
          and req = "\<lparr>http_method = ''DELETE'', is_json = False, body = [], args = []\<rparr>"
          and lib = python and schema = "[]" and org_id = 0]
    by (simp add: item_defs)
  have 4: "item_view python Product_schema [''id''] True 1 [(''id'', JInt 12)]
     \<lparr>http_method = ''GET'', is_json = False, body = [], args = []\<rparr> products =
     (Inr (Single (Instance ?p12)), products)"
    using item_lookup_by_identifier [where is_org = True
          and ident_prop = "[''id'']" and kargs = "[(''id'', JInt 12)]" and table = products
          and model = ?p12
          and req = "\<lparr>http_method = ''GET'', is_json = False, body = [], args = []\<rparr>"
          and lib = python and schema = Product_schema and org_id = 1]
    by (simp add: item_defs)
  have 5: "item_view python Product_schema [''id''] True 1 [(''id'', JInt 2)]
     \<lparr>http_method = ''GET'', is_json = False, body = [], args = []\<rparr> products =
     (Inl (Abort 404), products)"
    using item_lookup_by_identifier [where is_org = True
          and ident_prop = "[''id'']" and kargs = "[(''id'', JInt 2)]" and table = products
          and req = "\<lparr>http_method = ''GET'', is_json = False, body = [], args = []\<rparr>"
          and lib = python and schema = Product_schema and org_id = 1]
    by (simp add: item_defs)
  have 6: \<open>item_view python Product_schema [''id''] True 1 [(''id'', JInt 12)]
     \<lparr>http_method = ''PATCH'', is_json = True, body = ''{"name": "kiwi"}'', args = []\<rparr> products =
     (Inr (Single (Instance [(''id'', JInt 12), (''name'', JStr ''kiwi''), (''org_id'', JInt 1)])),
      [[(''id'', JInt 1), (''name'', JStr ''apple''), (''org_id'', JInt 1)],
       [(''id'', JInt 2), (''name'', JStr ''pear''), (''org_id'', JInt 2)],
       [(''id'', JInt 12), (''name'', JStr ''kiwi''), (''org_id'', JInt 1)],
       [(''id'', JInt 21), (''name'', JStr ''plum''), (''org_id'', JInt 1)],
       [(''id'', JInt 3), (''name'', JStr ''fig''), (''org_id'', JInt 1)]])\<close>
    using item_lookup_by_identifier [where is_org = True
          and ident_prop = "[''id'']" and kargs = "[(''id'', JInt 12)]" and table = products
          and model = ?p12
          and req = \<open>\<lparr>http_method = ''PATCH'', is_json = True, body = ''{"name": "kiwi"}'', args = []\<rparr>\<close>
          and lib = python and schema = Product_schema and org_id = 1]
    by (simp add: item_defs get_json_def python_def decode_defs validator_errors_def
          field_errors_def coerce_field_def field_messages_def normalized_def Product_schema_def
          import_data_def dict_update_def)
  from 1 2 3 4 5 6 show ?thesis by blast
qed

text \<open>
  Claim C8 as stated fails on a tenant-scoped model whose identifier holds \<open>org_id\<close>: for
  a caller of organization 1 the path values \<open>org_id = 2\<close> and \<open>id = 12\<close> give the row 12 of
  organization 1, although no row has the two columns equal to the two path values.
\<close>

theorem path_org_id_is_replaced:
  "item_view python Product_schema [''org_id'', ''id''] True 1
     [(''org_id'', JInt 2), (''id'', JInt 12)]
     \<lparr>http_method = ''GET'', is_json = False, body = [], args = []\<rparr> products =
     (Inr (Single (Instance [(''id'', JInt 12), (''name'', JStr ''Pineapple''), (''org_id'', JInt 1)])),
      products)
   \<and> filter (\<lambda>r. map_of r ''org_id'' = Some (JInt 2) \<and> map_of r ''id'' = Some (JInt 12))
        products = []"
  by (simp add: item_view_def Let_def filter_by_def one_def dict_get_def products_def)

section \<open>The checks of write requests\<close>

text \<open>
  Claim C2, as the code has it. For a POST request the decorator \<open>json\<close> fails with 415
  when the content type is not JSON, and with 400 when the body does not decode (or
  decodes to \<open>null\<close>); the view function is not called and the database is as it was. For
  any other method the decorator checks nothing and the result is the view function's.
  So for a PATCH, under the decorator and \<open>item_view\<close>: an item that is not found is
  answered 404; for an item that is found, a body of the JSON content type that does not
  decode is answered 400 by \<open>request.get_json()\<close>, and a content type that is not JSON is
  not answered 415: the payload is \<open>None\<close> and validation raises \<open>DocumentError\<close>. In all
  these cases the table is as it was.
\<close>

theorem write_request_checks:
  "(http_method req = ''POST'' \<and> \<not> is_json req \<longrightarrow>
      json_view lib func req db = (Inl (Abort 415), db))
 \<and> (http_method req = ''POST'' \<and> is_json req
      \<and> (loads lib (body req) = None \<or> loads lib (body req) = Some JNull) \<longrightarrow>
      json_view lib func req db = (Inl (Abort 400), db))
 \<and> (http_method req \<noteq> ''POST'' \<longrightarrow>
      json_view lib func req db =
        (case func req db of
           (Inl e, db') \<Rightarrow> (Inl e, db')
         | (Inr ro, db') \<Rightarrow> (Inr (make_response ro), db')))
 \<and> (http_method req = ''PATCH''
      \<and> filter (identified ident_prop is_org org_id kargs) table = [] \<longrightarrow>
      json_view lib (item_view lib schema ident_prop is_org org_id kargs) req table =
        (Inl (Abort 404), table))
 \<and> (http_method req = ''PATCH''
      \<and> filter (identified ident_prop is_org org_id kargs) table = [model]
      \<and> is_json req \<and> loads lib (body req) = None \<longrightarrow>
      json_view lib (item_view lib schema ident_prop is_org org_id kargs) req table =
        (Inl (Abort 400), table))
 \<and> (http_method req = ''PATCH''
      \<and> filter (identified ident_prop is_org org_id kargs) table = [model]
      \<and> \<not> is_json req \<longrightarrow>
      json_view lib (item_view lib schema ident_prop is_org org_id kargs) req table =
        (Inl DocumentError, table))"
proof -
  note f = filter_by_ident [where table = table and org_id = org_id and kargs = kargs
                              and is_org = is_org and ident_prop = ident_prop]
  have 1: "http_method req = ''POST'' \<and> \<not> is_json req \<longrightarrow>
      json_view lib func req db = (Inl (Abort 415), db)"
    by (simp add: json_view_def)
  have 2: "http_method req = ''POST'' \<and> is_json req
      \<and> (loads lib (body req) = None \<or> loads lib (body req) = Some JNull) \<longrightarrow>
      json_view lib func req db = (Inl (Abort 400), db)"
    by (auto simp: json_view_def get_json_def)
  have 3: "http_method req \<noteq> ''POST'' \<longrightarrow>
      json_view lib func req db =
        (case func req db of
           (Inl e, db') \<Rightarrow> (Inl e, db')
         | (Inr ro, db') \<Rightarrow> (Inr (make_response ro), db'))"
    by (simp add: json_view_def)
  have 4: "http_method req = ''PATCH''
      \<and> filter (identified ident_prop is_org org_id kargs) table = [] \<longrightarrow>
      json_view lib (item_view lib schema ident_prop is_org org_id kargs) req table =
        (Inl (Abort 404), table)"
    by (simp add: json_view_def item_view_def Let_def f one_def)
  have 5: "http_method req = ''PATCH''
      \<and> filter (identified ident_prop is_org org_id kargs) table = [model]
      \<and> is_json req \<and> loads lib (body req) = None \<longrightarrow>
      json_view lib (item_view lib schema ident_prop is_org org_id kargs) req table =
        (Inl (Abort 400), table)"
    by (simp add: json_view_def item_view_def Let_def f one_def get_json_def)
  have 6: "http_method req = ''PATCH''
      \<and> filter (identified ident_prop is_org org_id kargs) table = [model]
      \<and> \<not> is_json req \<longrightarrow>
      json_view lib (item_view lib schema ident_prop is_org org_id kargs) req table =
        (Inl DocumentError, table)"
    by (simp add: json_view_def item_view_def Let_def f one_def get_json_def)
  from 1 2 3 4 5 6 show ?thesis by blast
qed

text \<open>
  A POST that is not JSON and a POST with a body that does not decode, to the create view
  of products; and a PATCH for a caller of organization 1, to product 99, which does not
  exist, and to product 12 with a JSON body that does not decode and with a body that is
  not JSON.
\<close>

theorem write_request_checks_witness:
  "json_view python (add_view_func python Product_schema True 1)
     \<lparr>http_method = ''POST'', is_json = False, body = ''name=kiwi'', args = []\<rparr> products =
     (Inl (Abort 415), products)
   \<and> json_view python (add_view_func python Product_schema True 1)
     \<lparr>http_method = ''POST'', is_json = True, body = ''{'', args = []\<rparr> products =
     (Inl (Abort 400), products)
   \<and> json_view python (item_view python Product_schema [''id''] True 1 [(''id'', JInt 99)])
     \<lparr>http_method = ''PATCH'', is_json = True, body = ''{'', args = []\<rparr> products =
     (Inl (Abort 404), products)
   \<and> json_view python (item_view python Product_schema [''id''] True 1 [(''id'', JInt 12)])
     \<lparr>http_method = ''PATCH'', is_json = True, body = ''{'', args = []\<rparr> products =
     (Inl (Abort 400), products)
   \<and> json_view python (item_view python Product_schema [''id''] True 1 [(''id'', JInt 12)])
     \<lparr>http_method = ''PATCH'', is_json = False, body = ''{'', args = []\<rparr> products =
     (Inl DocumentError, products)"
proof -
  let ?p12 = "[(''id'', JInt 12), (''name'', JStr ''Pineapple''), (''org_id'', JInt 1)]"
  have 1: "json_view python (add_view_func python Product_schema True 1)
     \<lparr>http_method = ''POST'', is_json = False, body = ''name=kiwi'', args = []\<rparr> products =
     (Inl (Abort 415), products)"
    using write_request_checks [where lib = python
          and func = "add_view_func python Product_schema True 1" and db = products
          and req = "\<lparr>http_method = ''POST'', is_json = False, body = ''name=kiwi'', args = []\<rparr>",
          THEN conjunct1]
    by simp
  have 2: "json_view python (add_view_func python Product_schema True 1)
     \<lparr>http_method = ''POST'', is_json = True, body = ''{'', args = []\<rparr> products =
     (Inl (Abort 400), products)"
    using write_request_checks [where lib = python
          and func = "add_view_func python Product_schema True 1" and db = products
          and req = "\<lparr>http_method = ''POST'', is_json = True, body = ''{'', args = []\<rparr>",
          THEN conjunct2, THEN conjunct1]
    by (simp add: python_def decode_defs)
  have 3: "json_view python (item_view python Product_schema [''id''] True 1 [(''id'', JInt 99)])
     \<lparr>http_method = ''PATCH'', is_json = True, body = ''{'', args = []\<rparr> products =
     (Inl (Abort 404), products)"
    using write_request_checks [where lib = python and schema = Product_schema
          and ident_prop = "[''id'']" and is_org = True and org_id = 1
          and kargs = "[(''id'', JInt 99)]" and table = products and db = products
          and func = "item_view python Product_schema [''id''] True 1 [(''id'', JInt 99)]"
          and req = "\<lparr>http_method = ''PATCH'', is_json = True, body = ''{'', args = []\<rparr>",
          THEN conjunct2, THEN conjunct2, THEN conjunct2, THEN conjunct1]
    by (simp add: item_defs)
  have 4: "json_view python (item_view python Product_schema [''id''] True 1 [(''id'', JInt 12)])
     \<lparr>http_method = ''PATCH'', is_json = True, body = ''{'', args = []\<rparr> products =
     (Inl (Abort 400), products)"
    using write_request_checks [where lib = python and schema = Product_schema
          and ident_prop = "[''id'']" and is_org = True and org_id = 1
          and kargs = "[(''id'', JInt 12)]" and table = products and model = ?p12
          and db = products
          and func = "item_view python Product_schema [''id''] True 1 [(''id'', JInt 12)]"
          and req = "\<lparr>http_method = ''PATCH'', is_json = True, body = ''{'', args = []\<rparr>",
          THEN conjunct2, THEN conjunct2, THEN conjunct2, THEN conjunct2, THEN conjunct1]
    by (simp add: item_defs python_def decode_defs)
  have 5: "json_view python (item_view python Product_schema [''id''] True 1 [(''id'', JInt 12)])
     \<lparr>http_method = ''PATCH'', is_json = False, body = ''{'', args = []\<rparr> products =
     (Inl DocumentError, products)"
    using write_request_checks [where lib = python and schema = Product_schema
          and ident_prop = "[''id'']" and is_org = True and org_id = 1
          and kargs = "[(''id'', JInt 12)]" and table = products and model = ?p12
          and db = products
          and func = "item_view python Product_schema [''id''] True 1 [(''id'', JInt 12)]"
          and req = "\<lparr>http_method = ''PATCH'', is_json = False, body = ''{'', args = []\<rparr>",
          THEN conjunct2, THEN conjunct2, THEN conjunct2, THEN conjunct2, THEN conjunct2]
    by (simp add: item_defs)
  from 1 2 3 4 5 show ?thesis by blast
qed

text \<open>
  Claim C2 as stated fails for PATCH: a PATCH with a body that is not JSON, to product 12
  of the caller's organization, is not answered 415; validation raises \<open>DocumentError\<close> on
  the missing payload.
\<close>

theorem patch_is_not_checked:
  "json_view python
     (item_view python Product_schema [''id''] True 1 [(''id'', JInt 12)])
     \<lparr>http_method = ''PATCH'', is_json = False, body = ''name=kiwi'', args = []\<rparr> products =
     (Inl DocumentError, products)"
  by (simp add: json_view_def item_view_def Let_def filter_by_def one_def dict_get_def
        products_def get_json_def)

end
